theory Spec2Isabelle
  imports Complex_Main "HOL-Library.Word"
begin

unbundle bit_operations_syntax

section \<open>JavaScript values\<close>

text \<open>
  The values that \<^verbatim>\<open>serializeValue\<close> of \<^verbatim>\<open>stellar/deploy-contract.js\<close> inspects.
  A \<^verbatim>\<open>Uint8Array\<close> (a \<^verbatim>\<open>Buffer\<close> is one) is a list of bytes, an array without holes is
  a list, a \<^verbatim>\<open>bigint\<close> is an unbounded integer, and a plain object is the list of its own
  enumerable string-keyed properties in the order in which \<^verbatim>\<open>Object.entries\<close> yields
  them: the array indices in ascending order, then the other keys in the order of
  their creation. The prototype of an object is not part of the value: neither
  \<^verbatim>\<open>Object.entries\<close> nor JSON sees it. A number is only ever passed through, so a real
  stands for the double. Strings are lists of code units below 256.
\<close>

type_synonym byte = "8 word"

datatype jsval =
    JUndefined
  | JNull
  | JBool bool
  | JNum real
  | JBigInt int
  | JStr string
  | JBytes "byte list"
  | JArr "jsval list"
  | JObj "(string \<times> jsval) list"

type_synonym jsobject = "(string \<times> jsval) list"

text \<open>
  The failures of a run. The first two are the \<^verbatim>\<open>Error\<close>s thrown by
  \<^verbatim>\<open>getInitializeArgs\<close> (the specification calls them MissingDependency and
  UnknownContract); \<open>TypeError\<close> is raised by the runtime; \<open>InvalidAddress\<close> and
  \<open>InvalidContractId\<close> are thrown by the constructors of the SDK; the others wrap the
  message of a collaborator that threw.
\<close>

datatype error =
    MissingDependency
  | UnknownContract string
  | TypeError
  | InvalidAddress string
  | InvalidContractId string
  | NetworkTypeFailed string
  | WalletFailed string
  | DeploymentFailed string
  | DomainSeparatorFailed string
  | SignerEncodingFailed string
  | RemoteCallFailed string string
  | InheritedMemberFailed string

subsection \<open>Properties of an object\<close>

text \<open>A key is an array index when it is the decimal numeral, without leading zero, of
  a number below \<open>2\<^sup>3\<^sup>2 - 1\<close>.\<close>

definition isDigit :: "char \<Rightarrow> bool" where
  "isDigit c = (c \<in> set ''0123456789'')"

definition decimalValue :: "string \<Rightarrow> nat" where
  "decimalValue s = foldl (\<lambda>a c. 10 * a + (of_char c - 48)) 0 s"

definition isArrayIndex :: "string \<Rightarrow> bool" where
  "isArrayIndex k =
     (k \<noteq> [] \<and> list_all isDigit k \<and> (k = ''0'' \<or> hd k \<noteq> CHR ''0'')
      \<and> decimalValue k < 4294967295)"

text \<open>A new property takes its place in the order of the keys: an array index goes
  before the first key that is no array index or a greater one, any other key goes
  last.\<close>

fun insertProperty :: "string \<Rightarrow> 'v \<Rightarrow> (string \<times> 'v) list \<Rightarrow> (string \<times> 'v) list" where
  "insertProperty k v [] = [(k, v)]"
| "insertProperty k v ((k', v') # es) =
     (if isArrayIndex k \<and> (\<not> isArrayIndex k' \<or> decimalValue k < decimalValue k')
      then (k, v) # (k', v') # es
      else (k', v') # insertProperty k v es)"

text \<open>An existing property keeps its place and takes the new value.\<close>

fun replaceProperty :: "string \<Rightarrow> 'v \<Rightarrow> (string \<times> 'v) list \<Rightarrow> (string \<times> 'v) list" where
  "replaceProperty k v [] = []"
| "replaceProperty k v ((k', v') # es) =
     (if k = k' then (k, v) # es else (k', v') # replaceProperty k v es)"

text \<open>Defining an own property, as \<^verbatim>\<open>Object.fromEntries\<close> does for each entry.\<close>

definition defineProperty :: "string \<Rightarrow> 'v \<Rightarrow> (string \<times> 'v) list \<Rightarrow> (string \<times> 'v) list" where
  "defineProperty k v es =
     (if k \<in> fst ` set es then replaceProperty k v es else insertProperty k v es)"

text \<open>
  The assignment \<^verbatim>\<open>acc[key] = val\<close> on a plain object. For the key \<^verbatim>\<open>__proto__\<close>, unless
  the object has an own property of that name, the assignment reaches the setter of
  \<^verbatim>\<open>Object.prototype\<close>, which changes the prototype or does nothing, and the object
  gets no own property.
\<close>

definition assignProperty :: "string \<Rightarrow> 'v \<Rightarrow> (string \<times> 'v) list \<Rightarrow> (string \<times> 'v) list" where
  "assignProperty k v es =
     (if k = ''__proto__'' \<and> k \<notin> fst ` set es then es else defineProperty k v es)"

text \<open>\<^verbatim>\<open>Object.fromEntries\<close>: the properties are defined one after the other.\<close>

definition fromEntries :: "(string \<times> 'v) list \<Rightarrow> (string \<times> 'v) list" where
  "fromEntries es = foldl (\<lambda>acc e. defineProperty (fst e) (snd e) acc) [] es"

subsection \<open>Strings of bytes and of integers\<close>

text \<open>\<^verbatim>\<open>Buffer.from(value).toString('hex')\<close>: two digits per byte, read from the
  table of lowercase digits by the high and the low nibble.\<close>

definition hexDigit :: "nat \<Rightarrow> char" where
  "hexDigit n = ''0123456789abcdef'' ! n"

definition hexByte :: "byte \<Rightarrow> string" where
  "hexByte b = [hexDigit (unat (drop_bit 4 b)), hexDigit (unat (b AND 15))]"

definition toString_hex :: "byte list \<Rightarrow> string" where
  "toString_hex bs = concat (map hexByte bs)"

text \<open>\<^verbatim>\<open>value.toString()\<close> of a bigint: the decimal digits, the most significant
  first, after a minus sign for a negative value.\<close>

definition decimalDigit :: "nat \<Rightarrow> char" where
  "decimalDigit d = ''0123456789'' ! d"

fun natDigits :: "nat \<Rightarrow> string" where
  "natDigits n =
     (if n < 10 then [decimalDigit n]
      else natDigits (n div 10) @ [decimalDigit (n mod 10)])"

declare natDigits.simps [simp del]

definition bigint_toString :: "int \<Rightarrow> string" where
  "bigint_toString i =
     (if i < 0 then CHR ''-'' # natDigits (nat (- i)) else natDigits (nat i))"

section \<open>The value serializer\<close>

text \<open>
  \<^verbatim>\<open>serializeValue\<close> (lines 82 to 103), in the order of its tests: a \<^verbatim>\<open>Uint8Array\<close>, an
  array, a bigint, then anything whose \<^verbatim>\<open>typeof\<close> is \<^verbatim>\<open>'object'\<close>, which includes
  \<^verbatim>\<open>null\<close>; \<^verbatim>\<open>Object.entries(null)\<close> throws a TypeError. Everything else is returned
  as it is. \<open>serializeElements\<close> is \<^verbatim>\<open>value.map(serializeValue)\<close> and
  \<open>serializeEntries\<close> is the \<^verbatim>\<open>reduce\<close> over the entries with its accumulator, which
  line 97 assigns to; an exception in an element or a property value ends the whole
  call.
\<close>

fun serializeValue :: "jsval \<Rightarrow> error + jsval"
  and serializeElements :: "jsval list \<Rightarrow> error + jsval list"
  and serializeEntries :: "jsobject \<Rightarrow> jsobject \<Rightarrow> error + jsobject"
where
  "serializeValue (JBytes bs) = Inr (JStr (toString_hex bs))"
| "serializeValue (JArr xs) =
     (case serializeElements xs of Inl e \<Rightarrow> Inl e | Inr ys \<Rightarrow> Inr (JArr ys))"
| "serializeValue (JBigInt i) = Inr (JStr (bigint_toString i))"
| "serializeValue (JObj es) =
     (case serializeEntries es [] of Inl e \<Rightarrow> Inl e | Inr acc \<Rightarrow> Inr (JObj acc))"
| "serializeValue JNull = Inl TypeError"
| "serializeValue JUndefined = Inr JUndefined"
| "serializeValue (JBool b) = Inr (JBool b)"
| "serializeValue (JNum n) = Inr (JNum n)"
| "serializeValue (JStr s) = Inr (JStr s)"
| "serializeElements [] = Inr []"
| "serializeElements (x # xs) =
     (case serializeValue x of
        Inl e \<Rightarrow> Inl e
      | Inr y \<Rightarrow> (case serializeElements xs of Inl e \<Rightarrow> Inl e | Inr ys \<Rightarrow> Inr (y # ys)))"
| "serializeEntries [] acc = Inr acc"
| "serializeEntries ((k, v) # es) acc =
     (case serializeValue v of
        Inl e \<Rightarrow> Inl e
      | Inr w \<Rightarrow> serializeEntries es (assignProperty k w acc))"

subsection \<open>What the specification says of the serializer\<close>

text \<open>
  The serializer in the words of section 4.3 of the specification: a byte sequence
  becomes its lowercase hexadecimal string, a sequence is mapped element by element, a
  large integer becomes its decimal string, a record keeps its keys in order with the
  values serialized, a scalar is passed through. Both strings are written here from
  the numbers they denote: the hexadecimal string by arithmetic on the value of each
  byte, the decimal string from the digits of the absolute value, which are the
  remainders of the repeated division by ten.
\<close>

definition hexChar :: "nat \<Rightarrow> char" where
  "hexChar d = (if d < 10 then ''0123456789'' ! d else ''abcdef'' ! (d - 10))"

definition lowercaseHex :: "byte list \<Rightarrow> string" where
  "lowercaseHex bs = concat (map (\<lambda>b. [hexChar (unat b div 16), hexChar (unat b mod 16)]) bs)"

fun remainders :: "nat \<Rightarrow> nat list" where
  "remainders n = (n mod 10) # (if n div 10 = 0 then [] else remainders (n div 10))"

declare remainders.simps [simp del]

definition decimalString :: "int \<Rightarrow> string" where
  "decimalString i =
     (if i < 0 then ''-'' else '''') @ map (\<lambda>d. char_of (48 + d)) (rev (remainders (nat \<bar>i\<bar>)))"

fun serialized :: "jsval \<Rightarrow> jsval" where
  "serialized (JBytes bs) = JStr (lowercaseHex bs)"
| "serialized (JArr xs) = JArr (map serialized xs)"
| "serialized (JBigInt i) = JStr (decimalString i)"
| "serialized (JObj es) = JObj (map (\<lambda>e. (fst e, serialized (snd e))) es)"
| "serialized v = v"

text \<open>The keys of an object as \<^verbatim>\<open>Object.entries\<close> yields them: every array index among
  them comes after smaller array indices only.\<close>

fun keysOrdered :: "string list \<Rightarrow> bool" where
  "keysOrdered [] = True"
| "keysOrdered [k] = True"
| "keysOrdered (k # k' # ks) =
     ((isArrayIndex k' \<longrightarrow> isArrayIndex k \<and> decimalValue k < decimalValue k')
      \<and> keysOrdered (k' # ks))"

text \<open>
  The domain on which the serializer does what section 4.3 says: byte sequences,
  sequences, large integers, the scalars string, boolean and number, and records. A
  record is an object as the model represents it (each key once, the keys in the order
  of \<^verbatim>\<open>Object.entries\<close>) that has no property named \<^verbatim>\<open>__proto__\<close>.
\<close>

fun inDomain :: "jsval \<Rightarrow> bool" where
  "inDomain (JBytes bs) = True"
| "inDomain (JArr xs) = (\<forall>x \<in> set xs. inDomain x)"
| "inDomain (JBigInt i) = True"
| "inDomain (JObj es) =
     (distinct (map fst es) \<and> keysOrdered (map fst es) \<and> ''__proto__'' \<notin> fst ` set es
      \<and> (\<forall>e \<in> set es. inDomain (snd e)))"
| "inDomain (JStr s) = True"
| "inDomain (JBool b) = True"
| "inDomain (JNum n) = True"
| "inDomain JNull = False"
| "inDomain JUndefined = False"

text \<open>A value that JSON can carry: no byte sequence, no bigint and no
  \<^verbatim>\<open>undefined\<close> anywhere in it.\<close>

fun jsonSafe :: "jsval \<Rightarrow> bool" where
  "jsonSafe (JBytes bs) = False"
| "jsonSafe (JBigInt i) = False"
| "jsonSafe JUndefined = False"
| "jsonSafe (JArr xs) = (\<forall>x \<in> set xs. jsonSafe x)"
| "jsonSafe (JObj es) = (\<forall>e \<in> set es. jsonSafe (snd e))"
| "jsonSafe v = True"

section \<open>Typed contract values\<close>

text \<open>
  The typed values (\<^verbatim>\<open>xdr.ScVal\<close>) of the Stellar SDK that the script builds, passes to
  the contract and turns back into native values. A map has symbols as keys, as the
  encodings of structures do.
\<close>

datatype scval =
    ScvVoid
  | ScvBool bool
  | ScvU32 "32 word"
  | ScvI32 "32 word"
  | ScvU64 "64 word"
  | ScvI64 "64 word"
  | ScvU128 "128 word"
  | ScvI128 "128 word"
  | ScvU256 "256 word"
  | ScvI256 "256 word"
  | ScvBytes "byte list"
  | ScvString string
  | ScvSymbol string
  | ScvAddress string
  | ScvVec "scval list"
  | ScvMap "(string \<times> scval) list"

text \<open>
  \<^verbatim>\<open>scValToNative\<close> of the SDK: void is \<^verbatim>\<open>null\<close>, the 32-bit integers are numbers, the
  wider integers are bigints, bytes are a \<^verbatim>\<open>Buffer\<close>, strings, symbols and addresses are
  strings, a vector is an array and a map is the object that \<^verbatim>\<open>Object.fromEntries\<close>
  makes of its entries.
\<close>

fun scValToNative :: "scval \<Rightarrow> jsval" where
  "scValToNative ScvVoid = JNull"
| "scValToNative (ScvBool b) = JBool b"
| "scValToNative (ScvU32 w) = JNum (real (unat w))"
| "scValToNative (ScvI32 w) = JNum (real_of_int (sint w))"
| "scValToNative (ScvU64 w) = JBigInt (uint w)"
| "scValToNative (ScvI64 w) = JBigInt (sint w)"
| "scValToNative (ScvU128 w) = JBigInt (uint w)"
| "scValToNative (ScvI128 w) = JBigInt (sint w)"
| "scValToNative (ScvU256 w) = JBigInt (uint w)"
| "scValToNative (ScvI256 w) = JBigInt (sint w)"
| "scValToNative (ScvBytes bs) = JBytes bs"
| "scValToNative (ScvString s) = JStr s"
| "scValToNative (ScvSymbol s) = JStr s"
| "scValToNative (ScvAddress a) = JStr a"
| "scValToNative (ScvVec xs) = JArr (map scValToNative xs)"
| "scValToNative (ScvMap es) = JObj (fromEntries (map (\<lambda>e. (fst e, scValToNative (snd e))) es))"

section \<open>Chain state, wallet, options\<close>

text \<open>A Contract Record of the registry. A record read from the configuration may lack
  any of its properties.\<close>

record contract_record =
  address :: "string option"
  deployer :: "string option"
  initializeArgs :: "jsobject option"

type_synonym registry = "string \<rightharpoonup> contract_record"

text \<open>
  The chain state \<^verbatim>\<open>config.stellar\<close>. \<open>contracts\<close> holds the own properties of the
  object \<^verbatim>\<open>chain.contracts\<close> and is \<open>None\<close> when the configuration has no registry yet.
  \<open>contractsPrototype\<close> is the record that an assignment to the property \<^verbatim>\<open>__proto__\<close>
  has made the prototype of that object; it is \<open>None\<close> while the prototype is
  \<^verbatim>\<open>Object.prototype\<close>, as it is for a registry read from the configuration.
\<close>

record chain =
  rpc :: string
  networkType :: string
  contracts :: "registry option"
  contractsPrototype :: "contract_record option"

text \<open>The wallet is a key pair of the SDK; \<^verbatim>\<open>wallet.publicKey()\<close> is the encoded account
  address of its key.\<close>

record wallet =
  publicKey :: string

text \<open>The options that the command line of \<^verbatim>\<open>main\<close> declares. An option with an
  argument is a string when given, possibly the empty one, and \<^verbatim>\<open>undefined\<close> otherwise;
  \<open>addressOption\<close> and \<open>nonceOption\<close> are \<^verbatim>\<open>options.address\<close> and \<^verbatim>\<open>options.nonce\<close>. A flag
  is \<^verbatim>\<open>true\<close> when given.\<close>

record options =
  env :: string
  privateKey :: "string option"
  verbose :: bool
  initialize :: bool
  contractName :: string
  wasmPath :: string
  addressOption :: "string option"
  estimateCost :: bool
  nonceOption :: "string option"
  domainSeparator :: string

type_synonym config = jsval

text \<open>The Signer Set handed to \<^verbatim>\<open>weightedSignersToScVal\<close>.\<close>

record weighted_signer =
  signer :: string
  weight :: int

record weighted_signers =
  nonce :: "byte list"
  signers :: "weighted_signer list"
  threshold :: int

text \<open>An operation built by \<^verbatim>\<open>contract.call(method, ...args)\<close>.\<close>

record operation =
  contractId :: string
  fnName :: string
  args :: "scval list"

text \<open>
  The collaborators that the script imports and that are not part of it are parameters
  of the model, each with its outcome: \<open>Inl\<close> carries the message of the exception
  thrown. They read the chain state and do not write it. A 32-byte hash (the result of
  \<^verbatim>\<open>getDomainSeparator\<close>, which section 4.1 of the specification describes as a 32-byte
  hash, and of \<^verbatim>\<open>id\<close>, the keccak256 of a string) is a 256-bit word.
  \<open>isValidAddress\<close> and \<open>isValidContractId\<close> are the checks that the constructors
  \<^verbatim>\<open>Address\<close> and \<^verbatim>\<open>Contract\<close> of the SDK make on a string. \<open>callInherited\<close> is the outcome
  of calling the member of \<^verbatim>\<open>Object.prototype\<close> of the given name with the chain state,
  the wallet and the options.
\<close>

record externals =
  getNetworkPassphrase :: "string \<Rightarrow> string + string"
  getWallet :: "chain \<Rightarrow> options \<Rightarrow> string + wallet"
  execSync :: "string \<Rightarrow> string + string"
  broadcast :: "operation \<Rightarrow> wallet \<Rightarrow> chain \<Rightarrow> string \<Rightarrow> options \<Rightarrow> string + unit"
  getDomainSeparator :: "config \<Rightarrow> chain \<Rightarrow> options \<Rightarrow> string + 256 word"
  weightedSignersToScVal :: "weighted_signers \<Rightarrow> string + scval"
  keccak_id :: "string \<Rightarrow> 256 word"
  isValidAddress :: "string \<Rightarrow> bool"
  isValidContractId :: "string \<Rightarrow> bool"
  callInherited :: "string \<Rightarrow> string + unit"

text \<open>\<^verbatim>\<open>arrayify\<close> of a 32-byte hash: its 32 bytes, the most significant first.\<close>

definition arrayify :: "256 word \<Rightarrow> byte list" where
  "arrayify h = map (\<lambda>i. ucast (drop_bit (8 * (31 - i)) h)) [0..<32]"

text \<open>\<^verbatim>\<open>Address.fromString(s)\<close> and \<^verbatim>\<open>nativeToScVal(s, { type: 'address' })\<close> of a string,
  each followed by the conversion to a typed value: the constructor \<^verbatim>\<open>Address\<close> throws
  on a string that is no address.\<close>

definition nativeToScVal_address :: "externals \<Rightarrow> string \<Rightarrow> error + scval" where
  "nativeToScVal_address ext s =
     (if isValidAddress ext s then Inr (ScvAddress s) else Inl (InvalidAddress s))"

text \<open>
  The assignment \<^verbatim>\<open>chain.contracts[name] = r\<close>. Without a registry it is a TypeError.
  For the name \<^verbatim>\<open>__proto__\<close>, unless the registry has an own property of that name, it
  makes the record the prototype of the registry, which gets no own property.
\<close>

definition assignContract :: "chain \<Rightarrow> string \<Rightarrow> contract_record \<Rightarrow> error + chain" where
  "assignContract chain name r =
     (case contracts chain of
        None \<Rightarrow> Inl TypeError
      | Some reg \<Rightarrow>
          if name = ''__proto__'' \<and> reg name = None
          then Inr (chain\<lparr>contractsPrototype := Some r\<rparr>)
          else Inr (chain\<lparr>contracts := Some (reg(name \<mapsto> r))\<rparr>))"

section \<open>The initialization argument builder\<close>

text \<open>\<^verbatim>\<open>chain.contracts?.axelar_auth_verifier?.address\<close> (line 25). A prototype record has
  no property of that name, so only the own properties of the registry count.\<close>

definition authVerifierAddress :: "chain \<Rightarrow> string option" where
  "authVerifierAddress chain =
     (case contracts chain of
        None \<Rightarrow> None
      | Some reg \<Rightarrow> (case reg ''axelar_auth_verifier'' of None \<Rightarrow> None | Some r \<Rightarrow> address r))"

text \<open>The object of lines 43 to 52 that is handed to \<^verbatim>\<open>weightedSignersToScVal\<close>, with
  the nonce of line 41. The test \<^verbatim>\<open>options.nonce ? ... : ...\<close> takes \<^verbatim>\<open>undefined\<close> and
  the empty string as false.\<close>

definition initialSignerSet :: "externals \<Rightarrow> wallet \<Rightarrow> options \<Rightarrow> weighted_signers" where
  "initialSignerSet ext wallet options =
     \<lparr>nonce = (case nonceOption options of
                 None \<Rightarrow> replicate 32 0
               | Some s \<Rightarrow> if s = [] then replicate 32 0 else arrayify (keccak_id ext s)),
      signers = [\<lparr>signer = publicKey wallet, weight = 1\<rparr>],
      threshold = 1\<rparr>"

text \<open>
  \<^verbatim>\<open>getInitializeArgs\<close> (lines 20 to 69). It returns the outcome together with the chain
  state, which it reads and never writes. Line 21 comes before the switch:
  \<^verbatim>\<open>Address.fromString\<close> throws when the public key of the wallet is no address. The test
  \<^verbatim>\<open>!authAddress\<close> holds of \<^verbatim>\<open>undefined\<close> and of the empty string. The result object is
  the list of its properties in the order of the literal. \<^verbatim>\<open>nativeToScVal\<close> of a number
  without a type is the smallest unsigned type that holds it, \<open>u64\<close>; of a \<^verbatim>\<open>Buffer\<close> it
  is bytes; of an array it is a vector.
\<close>

definition getInitializeArgs ::
  "externals \<Rightarrow> config \<Rightarrow> chain \<Rightarrow> string \<Rightarrow> wallet \<Rightarrow> options
     \<Rightarrow> (error + (string \<times> scval) list) \<times> chain" where
  "getInitializeArgs ext config chain name wallet options =
     (case nativeToScVal_address ext (publicKey wallet) of
        Inl e \<Rightarrow> (Inl e, chain)
      | Inr owner \<Rightarrow>
      if name = ''axelar_gateway'' then
        (case authVerifierAddress chain of
           None \<Rightarrow> (Inl MissingDependency, chain)
         | Some authAddress \<Rightarrow>
             if authAddress = [] then (Inl MissingDependency, chain)
             else (case nativeToScVal_address ext authAddress of
                     Inl e \<Rightarrow> (Inl e, chain)
                   | Inr a \<Rightarrow> (Inr [(''authAddress'', a), (''owner'', owner)], chain)))
      else if name = ''axelar_auth_verifier'' then
        (let previousSignersRetention = ScvU64 15 in
         case getDomainSeparator ext config chain options of
           Inl m \<Rightarrow> (Inl (DomainSeparatorFailed m), chain)
         | Inr h \<Rightarrow>
             (let domainSeparator = ScvBytes (arrayify h);
                  minimumRotationDelay = ScvU64 0
              in case weightedSignersToScVal ext (initialSignerSet ext wallet options) of
                   Inl m \<Rightarrow> (Inl (SignerEncodingFailed m), chain)
                 | Inr encoded \<Rightarrow>
                     (Inr [(''owner'', owner),
                           (''previousSignersRetention'', previousSignersRetention),
                           (''domainSeparator'', domainSeparator),
                           (''minimumRotationDelay'', minimumRotationDelay),
                           (''initialSigners'', ScvVec [encoded])], chain)))
      else if name = ''axelar_operators'' then (Inr [(''owner'', owner)], chain)
      else (Inl (UnknownContract name), chain))"

section \<open>The deployment orchestrator\<close>

text \<open>
  What a run does to the outside, in order: \<^verbatim>\<open>printInfo\<close> with its message and its
  second argument, the call of the deploy binary with its command line, and
  \<^verbatim>\<open>broadcast\<close> with the operation, the wallet, the chain state as it is at the call,
  and the description. The second argument of \<^verbatim>\<open>printInfo\<close> is missing, a string, or
  the text that \<^verbatim>\<open>JSON.stringify(v, null, 2)\<close> makes of a value \<open>v\<close>, which \<open>JsonText v\<close>
  stands for.
\<close>

datatype info = NoInfo | Info string | JsonText jsval

datatype event =
    PrintInfo string info
  | ExecSync string
  | Broadcast operation wallet chain string

text \<open>A template literal prints \<^verbatim>\<open>undefined\<close> for a missing value.\<close>

definition interpolate :: "string option \<Rightarrow> string" where
  "interpolate s = (case s of None \<Rightarrow> ''undefined'' | Some t \<Rightarrow> t)"

text \<open>The command line of line 116.\<close>

definition deployCommand :: "options \<Rightarrow> chain \<Rightarrow> string \<Rightarrow> string" where
  "deployCommand options chain networkPassphrase =
     ''soroban contract deploy --wasm '' @ wasmPath options
       @ '' --source '' @ interpolate (privateKey options)
       @ '' --rpc-url '' @ rpc chain
       @ '' --network-passphrase '' @ [CHR 0x22] @ networkPassphrase @ [CHR 0x22]"

text \<open>\<^verbatim>\<open>trimEnd\<close>: the white space and line terminators at the end of the string are
  dropped (tab, line feed, vertical tab, form feed, carriage return, space, no-break
  space).\<close>

definition isWhiteSpace :: "char \<Rightarrow> bool" where
  "isWhiteSpace c = (c \<in> set [CHR 0x09, CHR 0x0A, CHR 0x0B, CHR 0x0C, CHR 0x0D, CHR 0x20, CHR 0xA0])"

definition trimEnd :: "string \<Rightarrow> string" where
  "trimEnd s = rev (dropWhile isWhiteSpace (rev s))"

text \<open>
  Lines 138 to 140: every argument is turned into a native value and serialized, in
  order, and the object is built from the entries.
\<close>

fun serializeArgEntries :: "(string \<times> scval) list \<Rightarrow> error + jsobject" where
  "serializeArgEntries [] = Inr []"
| "serializeArgEntries ((key, v) # es) =
     (case serializeValue (scValToNative v) of
        Inl e \<Rightarrow> Inl e
      | Inr w \<Rightarrow> (case serializeArgEntries es of Inl e \<Rightarrow> Inl e | Inr ws \<Rightarrow> Inr ((key, w) # ws)))"

definition serializeArgs :: "(string \<times> scval) list \<Rightarrow> error + jsobject" where
  "serializeArgs initArgs =
     (case serializeArgEntries initArgs of Inl e \<Rightarrow> Inl e | Inr ws \<Rightarrow> Inr (fromEntries ws))"

text \<open>
  \<^verbatim>\<open>postDeployGateway\<close> (lines 71 to 76), with the events it adds. Reading a property
  of a missing record is a TypeError; \<^verbatim>\<open>new Contract\<close> throws on a string that is no
  contract identifier, and on \<^verbatim>\<open>undefined\<close>; \<^verbatim>\<open>nativeToScVal\<close> of \<^verbatim>\<open>undefined\<close> is void.
  The two records are looked up under names that a prototype record does not have,
  so only the own properties of the registry count.
\<close>

definition postDeployGateway ::
  "externals \<Rightarrow> chain \<Rightarrow> wallet \<Rightarrow> options \<Rightarrow> (error + unit) \<times> event list" where
  "postDeployGateway ext chain wallet options =
     (let trace = [PrintInfo ''Transferring ownership of auth contract to the gateway'' NoInfo] in
      case contracts chain of
        None \<Rightarrow> (Inl TypeError, trace)
      | Some reg \<Rightarrow>
      (case reg ''axelar_auth_verifier'' of
        None \<Rightarrow> (Inl TypeError, trace)
      | Some verifier \<Rightarrow>
      (case address verifier of
        None \<Rightarrow> (Inl (InvalidContractId ''undefined''), trace)
      | Some auth \<Rightarrow>
      if \<not> isValidContractId ext auth then (Inl (InvalidContractId auth), trace)
      else
      (case reg ''axelar_gateway'' of
        None \<Rightarrow> (Inl TypeError, trace)
      | Some gateway \<Rightarrow>
      (case (case address gateway of
               None \<Rightarrow> Inr ScvVoid
             | Some a \<Rightarrow> nativeToScVal_address ext a) of
        Inl e \<Rightarrow> (Inl e, trace)
      | Inr newOwner \<Rightarrow>
      (let operation = \<lparr>contractId = auth, fnName = ''transfer_ownership'', args = [newOwner]\<rparr>;
           trace' = trace @ [Broadcast operation wallet chain ''Transferred ownership'']
       in case broadcast ext operation wallet chain ''Transferred ownership'' options of
            Inl m \<Rightarrow> (Inl (RemoteCallFailed ''transfer_ownership'' m), trace')
          | Inr u \<Rightarrow> (Inr (), trace')))))))"

text \<open>
  \<^verbatim>\<open>postDeployFunctions\<close> (lines 78 to 80) and the lookup \<^verbatim>\<open>postDeployFunctions[name]\<close> of
  lines 150 and 151. The object literal has the one own property \<open>axelar_gateway\<close>; the
  lookup also finds the members that the literal inherits from \<^verbatim>\<open>Object.prototype\<close>,
  which are not \<^verbatim>\<open>undefined\<close> and so are called.
\<close>

definition objectPrototypeMembers :: "string list" where
  "objectPrototypeMembers =
     [''constructor'', ''__defineGetter__'', ''__defineSetter__'', ''hasOwnProperty'',
      ''__lookupGetter__'', ''__lookupSetter__'', ''isPrototypeOf'', ''propertyIsEnumerable'',
      ''toString'', ''valueOf'', ''__proto__'', ''toLocaleString'']"

definition inheritedMember ::
  "string \<Rightarrow> externals \<Rightarrow> chain \<Rightarrow> wallet \<Rightarrow> options \<Rightarrow> (error + unit) \<times> event list" where
  "inheritedMember name ext chain wallet options =
     (case callInherited ext name of
        Inl m \<Rightarrow> (Inl (InheritedMemberFailed m), [])
      | Inr u \<Rightarrow> (Inr (), []))"

definition postDeployFunctions ::
  "string \<Rightarrow> (externals \<Rightarrow> chain \<Rightarrow> wallet \<Rightarrow> options \<Rightarrow> (error + unit) \<times> event list) option" where
  "postDeployFunctions name =
     (if name = ''axelar_gateway'' then Some postDeployGateway
      else if name \<in> set objectPrototypeMembers then Some (inheritedMember name)
      else None)"

text \<open>
  Lines 137 to 153 of \<^verbatim>\<open>processCommand\<close>: the arguments are built and serialized, the
  serialized arguments are written into the record of the contract, and then the
  contract object and the operation are made, the call is broadcast and the hook, if
  there is one, is run. \<open>record\<close> is the object that line 128 has stored: line 141
  reads it back from where it is, as own property or as prototype of the registry,
  and sets its \<open>initializeArgs\<close>, which the model writes as the assignment of the
  updated record to the same place. The result is the outcome, the chain state as the
  run leaves it, and the events.
\<close>

definition initializeContract ::
  "externals \<Rightarrow> options \<Rightarrow> config \<Rightarrow> chain \<Rightarrow> wallet \<Rightarrow> string \<Rightarrow> contract_record
     \<Rightarrow> event list \<Rightarrow> (error + unit) \<times> chain \<times> event list" where
  "initializeContract ext options config chain wallet contractAddress record trace =
     (case getInitializeArgs ext config chain (contractName options) wallet options of
        (Inl e, chain1) \<Rightarrow> (Inl e, chain1, trace)
      | (Inr initArgs, chain1) \<Rightarrow>
      (case serializeArgs initArgs of
        Inl e \<Rightarrow> (Inl e, chain1, trace)
      | Inr serializedArgs \<Rightarrow>
      (case assignContract chain1 (contractName options)
              (record\<lparr>initializeArgs := Some serializedArgs\<rparr>) of
        Inl e \<Rightarrow> (Inl e, chain1, trace)
      | Inr chain2 \<Rightarrow>
      if \<not> isValidContractId ext contractAddress
      then (Inl (InvalidContractId contractAddress), chain2, trace)
      else
      (let operation = \<lparr>contractId = contractAddress, fnName = ''initialize'',
                        args = map snd initArgs\<rparr>;
           trace1 = trace @ [PrintInfo ''Initializing contract with args''
                               (JsonText (JObj serializedArgs)),
                             Broadcast operation wallet chain2 ''Initialized contract'']
       in case broadcast ext operation wallet chain2 ''Initialized contract'' options of
            Inl m \<Rightarrow> (Inl (RemoteCallFailed ''initialize'' m), chain2, trace1)
          | Inr u \<Rightarrow>
          (case postDeployFunctions (contractName options) of
            None \<Rightarrow> (Inr (), chain2, trace1)
          | Some hook \<Rightarrow>
          (case hook ext chain2 wallet options of
            (Inl e, trace2) \<Rightarrow> (Inl e, chain2, trace1 @ trace2)
          | (Inr u', trace2) \<Rightarrow>
              (Inr (), chain2,
               trace1 @ trace2 @ [PrintInfo ''Post deployment setup executed'' NoInfo])))))))"

text \<open>Lines 112 to 114: a missing registry is made, as a new empty object.\<close>

definition ensureRegistry :: "chain \<Rightarrow> chain" where
  "ensureRegistry chain =
     (case contracts chain of
        None \<Rightarrow> chain\<lparr>contracts := Some Map.empty, contractsPrototype := None\<rparr>
      | Some reg \<Rightarrow> chain)"

text \<open>
  Lines 119 to 126. The test \<^verbatim>\<open>!contractAddress\<close> of line 121 holds when
  \<^verbatim>\<open>options.address\<close> is \<^verbatim>\<open>undefined\<close> or the empty string; then the deploy binary is
  called and the end of its output is trimmed.
\<close>

definition deployOrAdopt ::
  "externals \<Rightarrow> options \<Rightarrow> string \<Rightarrow> (error + string) \<times> event list" where
  "deployOrAdopt ext options cmd =
     (let deploy =
        (case execSync ext cmd of
           Inl m \<Rightarrow> (Inl (DeploymentFailed m), [ExecSync cmd])
         | Inr out \<Rightarrow>
             (Inr (trimEnd out),
              [ExecSync cmd, PrintInfo ''Deployed contract successfully!'' (Info (trimEnd out))]))
      in case addressOption options of
           None \<Rightarrow> deploy
         | Some a \<Rightarrow>
             if a = [] then deploy
             else (Inr a, [PrintInfo ''Using existing contract'' (Info a)]))"

text \<open>\<^verbatim>\<open>processCommand\<close> (lines 105 to 154). Line 128 assigns a new record, with no
  \<^verbatim>\<open>initializeArgs\<close>, to the property of the registry that the contract name names.\<close>

definition processCommand ::
  "externals \<Rightarrow> options \<Rightarrow> config \<Rightarrow> chain \<Rightarrow> (error + unit) \<times> chain \<times> event list" where
  "processCommand ext options config chain =
     (case getNetworkPassphrase ext (networkType chain) of
        Inl m \<Rightarrow> (Inl (NetworkTypeFailed m), chain, [])
      | Inr networkPassphrase \<Rightarrow>
      (case getWallet ext chain options of
        Inl m \<Rightarrow> (Inl (WalletFailed m), chain, [])
      | Inr wallet \<Rightarrow>
      (let chain1 = ensureRegistry chain;
           cmd = deployCommand options chain networkPassphrase;
           trace = [PrintInfo ''Deploying contract'' (Info (contractName options))]
       in case deployOrAdopt ext options cmd of
            (Inl e, trace1) \<Rightarrow> (Inl e, chain1, trace @ trace1)
          | (Inr contractAddress, trace1) \<Rightarrow>
          (let record = \<lparr>address = Some contractAddress,
                         deployer = Some (publicKey wallet),
                         initializeArgs = None\<rparr>
           in case assignContract chain1 (contractName options) record of
                Inl e \<Rightarrow> (Inl e, chain1, trace @ trace1)
              | Inr chain2 \<Rightarrow>
                  if \<not> initialize options then (Inr (), chain2, trace @ trace1)
                  else initializeContract ext options config chain2 wallet contractAddress
                         record (trace @ trace1)))))"

section \<open>Concrete inputs\<close>

text \<open>
  A nested value, and a wallet, chain state, options and collaborators of a local
  network, on which the theorems below are instantiated. The account and the contract
  identifiers are encoded keys with their checksums, and the checks of the SDK accept
  exactly these. \<open>demoSignersToScVal\<close> encodes a Signer Set as a map of its three
  fields.
\<close>

definition demoRecordValue :: jsval where
  "demoRecordValue =
     JObj [(''0'', JBytes [0x0f, 0xa0, 0xff]),
           (''12'', JStr ''twelve''),
           (''amounts'', JArr [JBigInt (- 9007199254740993), JNum 7, JStr ''x'']),
           (''signer'', JObj [(''active'', JBool True), (''weight'', JBigInt 1)])]"

definition demoAccount :: string where
  "demoAccount = ''GAAZI4TCR3TY5OJHCTJC2A4QSY6CJWJH5IAJTGKIN2ER7LBNVKOCCWN7''"

definition demoVerifierId :: string where
  "demoVerifierId = ''CA3D5KRYM6CB7OWQ6TWYRR3Z4T7GNZLKERYNZGGA5SOAOPIFY6YQGAXE''"

definition demoDeployedId :: string where
  "demoDeployedId = ''CDLZFC3SYJYDZT7K67VZ75HPJVIEUVNIXF47ZG2FB2RMQQVU2HHGCYSC''"

definition demoExistingId :: string where
  "demoExistingId = ''CAS3J7GYLGXMF6TDJBBYYSE3HQ6BBSMLNUQ34T6TZMYMW2EVH34XOWMA''"

definition demoWallet :: wallet where
  "demoWallet = \<lparr>publicKey = demoAccount\<rparr>"

definition demoChain :: chain where
  "demoChain =
     \<lparr>rpc = ''http://localhost:8000/rpc'', networkType = ''local'', contracts = None,
      contractsPrototype = None\<rparr>"

definition demoOptions :: options where
  "demoOptions =
     \<lparr>env = ''local'', privateKey = Some ''SSECRET'', verbose = False, initialize = True,
      contractName = ''axelar_operators'', wasmPath = ''operators.wasm'',
      addressOption = None, estimateCost = False, nonceOption = None,
      domainSeparator = ''offline''\<rparr>"

definition demoSignersToScVal :: "weighted_signers \<Rightarrow> string + scval" where
  "demoSignersToScVal ss =
     Inr (ScvMap [(''nonce'', ScvBytes (nonce ss)),
                  (''signers'',
                   ScvVec (map (\<lambda>s. ScvMap [(''signer'', ScvString (signer s)),
                                            (''weight'', ScvU128 (word_of_int (weight s)))])
                             (signers ss))),
                  (''threshold'', ScvU128 (word_of_int (threshold ss)))])"

definition demoPassphrase :: string where
  "demoPassphrase = ''Standalone Network ; February 2017''"

definition demoExternals :: externals where
  "demoExternals =
     \<lparr>getNetworkPassphrase =
        (\<lambda>t. if t = ''local'' then Inr demoPassphrase else Inl ''Unknown network type''),
      getWallet = (\<lambda>c opts. Inr demoWallet),
      execSync = (\<lambda>cmd. Inr (demoDeployedId @ [CHR 0x0A])),
      broadcast = (\<lambda>operation w c description opts. Inr ()),
      getDomainSeparator = (\<lambda>cfg c opts. Inr 0x0102),
      weightedSignersToScVal = demoSignersToScVal,
      keccak_id = (\<lambda>s. 0xc5d2460186f7233c927e7db2dcc703c0e500b653ca82273b7bfad8045d85a470),
      isValidAddress =
        (\<lambda>s. s \<in> set [demoAccount, demoVerifierId, demoDeployedId, demoExistingId]),
      isValidContractId = (\<lambda>s. s \<in> set [demoVerifierId, demoDeployedId, demoExistingId]),
      callInherited = (\<lambda>name. Inl ''not a function'')\<rparr>"

definition verifierChain :: "string option \<Rightarrow> chain" where
  "verifierChain a =
     demoChain\<lparr>contracts := Some [''axelar_auth_verifier'' \<mapsto>
       \<lparr>address = a, deployer = Some demoAccount, initializeArgs = None\<rparr>]\<rparr>"

definition demoRecorded :: "string \<Rightarrow> string \<Rightarrow> jsobject option \<Rightarrow> chain" where
  "demoRecorded name addr initArgs =
     demoChain\<lparr>contracts := Some [name \<mapsto>
       \<lparr>address = Some addr, deployer = Some demoAccount, initializeArgs = initArgs\<rparr>]\<rparr>"

section \<open>Auxiliary definitions for the proofs\<close>

text \<open>An event of the post-deploy hook run on a chain state with a wallet: a message,
  or the broadcast of \<open>transfer_ownership\<close> on that chain state with that wallet.\<close>

definition hookEvent :: "chain \<Rightarrow> wallet \<Rightarrow> event \<Rightarrow> bool" where
  "hookEvent chain wallet ev =
     (case ev of
        PrintInfo msg v \<Rightarrow> True
      | ExecSync cmd \<Rightarrow> False
      | Broadcast operation w c d \<Rightarrow>
          fnName operation = ''transfer_ownership'' \<and> w = wallet \<and> c = chain)"

text \<open>The chain state in which the registry has, as an own property, the record of
  the contract with the given arguments.\<close>

definition recordedChain ::
  "chain \<Rightarrow> string \<Rightarrow> string \<Rightarrow> wallet \<Rightarrow> jsobject option \<Rightarrow> chain" where
  "recordedChain chain name addr w initArgs =
     (ensureRegistry chain)\<lparr>contracts :=
        Some ((case contracts chain of None \<Rightarrow> Map.empty | Some r \<Rightarrow> r)
          (name \<mapsto> \<lparr>address = Some addr, deployer = Some (publicKey w),
                      initializeArgs = initArgs\<rparr>))\<rparr>"

text \<open>The entries of the serialized arguments, one for each argument in order: the key
  of the argument with the serialization of its native value.\<close>

definition serializedEntries :: "(string \<times> scval) list \<Rightarrow> jsobject \<Rightarrow> bool" where
  "serializedEntries initArgs sargs =
     list_all2 (\<lambda>a j. fst j = fst a \<and> serializeValue (scValToNative (snd a)) = Inr (snd j))
       initArgs sargs"

section \<open>The serializer: lemmas\<close>

lemma hexDigit_hexChar: "n < 16 \<Longrightarrow> hexDigit n = hexChar n"
proof -
  have "\<forall>n \<in> set [0..<16]. hexDigit n = hexChar n"
    by code_simp
  then show "n < 16 \<Longrightarrow> hexDigit n = hexChar n" by simp
qed

lemma unat_high_nibble: "unat (drop_bit 4 (b :: byte)) = unat b div 16"
  by (simp add: drop_bit_eq_div unat_div_distrib)

lemma unat_low_nibble: "unat ((b :: byte) AND 15) = unat b mod 16"
proof -
  have "(b AND 15) = take_bit 4 b"
    by (simp add: take_bit_eq_mask mask_eq_exp_minus_1)
  then show ?thesis by (simp add: take_bit_eq_mod unat_mod_distrib)
qed

lemma byte_nibbles: "unat (b :: byte) div 16 < 16" "unat b mod 16 < 16"
proof -
  have "unat b < 256" using unsigned_less [of b] by simp
  then show "unat b div 16 < 16" by simp
  show "unat b mod 16 < 16" by simp
qed

lemma hexByte_arith: "hexByte b = [hexChar (unat b div 16), hexChar (unat b mod 16)]"
  by (simp add: hexByte_def unat_high_nibble unat_low_nibble hexDigit_hexChar byte_nibbles)

lemma toString_hex_lowercaseHex: "toString_hex bs = lowercaseHex bs"
proof -
  have "hexByte = (\<lambda>b. [hexChar (unat b div 16), hexChar (unat b mod 16)])"
    by (rule ext) (rule hexByte_arith)
  then show ?thesis by (simp add: toString_hex_def lowercaseHex_def)
qed

text \<open>The hexadecimal string has two characters for each byte, all of them lowercase
  digits.\<close>

lemma length_lowercaseHex: "length (lowercaseHex bs) = 2 * length bs"
  by (induction bs) (simp_all add: lowercaseHex_def)

lemma hexChar_lowercase: "d < 16 \<Longrightarrow> hexChar d \<in> set ''0123456789abcdef''"
proof -
  have "\<forall>d \<in> set [0..<16]. hexChar d \<in> set ''0123456789abcdef''" by code_simp
  then show "d < 16 \<Longrightarrow> hexChar d \<in> set ''0123456789abcdef''" by simp
qed

lemma lowercaseHex_chars: "c \<in> set (lowercaseHex bs) \<Longrightarrow> c \<in> set ''0123456789abcdef''"
proof (induction bs)
  case Nil
  then show ?case by (simp add: lowercaseHex_def)
next
  case (Cons b bs)
  from Cons.prems have "c = hexChar (unat b div 16) \<or> c = hexChar (unat b mod 16)
      \<or> c \<in> set (lowercaseHex bs)"
    by (auto simp: lowercaseHex_def)
  then show ?case
    using hexChar_lowercase [OF byte_nibbles(1) [of b]] hexChar_lowercase [OF byte_nibbles(2) [of b]]
      Cons.IH by blast
qed

text \<open>The string that \<^verbatim>\<open>toString\<close> makes of a bigint is the decimal string of the
  specification, and it reads back as the number.\<close>

lemma decimalDigit_char: "d < 10 \<Longrightarrow> decimalDigit d = char_of (48 + d)"
proof -
  have "\<forall>d \<in> set [0..<10]. decimalDigit d = char_of (48 + d)" by code_simp
  then show "d < 10 \<Longrightarrow> decimalDigit d = char_of (48 + d)" by simp
qed

lemma natDigits_remainders: "natDigits n = map (\<lambda>d. char_of (48 + d)) (rev (remainders n))"
proof (induction n rule: natDigits.induct)
  case (1 n)
  show ?case
  proof (cases "n < 10")
    case True
    then have "remainders n = [n]" by (subst remainders.simps) simp
    with True show ?thesis by (subst natDigits.simps) (simp add: decimalDigit_char)
  next
    case False
    then have "n div 10 \<noteq> 0" by (simp add: div_eq_0_iff)
    then have r: "remainders n = (n mod 10) # remainders (n div 10)"
      by (subst remainders.simps) simp
    have m: "n mod 10 < 10" by simp
    from False 1 have ih: "natDigits (n div 10)
        = map (\<lambda>d. char_of (48 + d)) (rev (remainders (n div 10)))"
      by simp
    from False show ?thesis
      by (subst natDigits.simps) (simp add: r ih decimalDigit_char [OF m])
  qed
qed

lemma bigint_toString_decimalString: "bigint_toString i = decimalString i"
  by (simp add: bigint_toString_def decimalString_def natDigits_remainders)

lemma decimalDigit_value: "d < 10 \<Longrightarrow> of_char (decimalDigit d) = 48 + d"
proof -
  have "\<forall>d \<in> set [0..<10]. of_char (decimalDigit d) = (48 + d :: nat)" by code_simp
  then show "d < 10 \<Longrightarrow> of_char (decimalDigit d) = 48 + d" by simp
qed

lemma natDigits_value: "decimalValue (natDigits n) = n"
proof (induction n rule: natDigits.induct)
  case (1 n)
  show ?case
  proof (cases "n < 10")
    case True
    then show ?thesis
      by (subst natDigits.simps) (simp add: decimalValue_def decimalDigit_value)
  next
    case False
    with 1 have ih: "decimalValue (natDigits (n div 10)) = n div 10"
      by simp
    have m: "n mod 10 < 10" by simp
    have "of_char (decimalDigit (n mod 10)) = (48 + n mod 10 :: nat)"
      using m by (rule decimalDigit_value)
    with False ih show ?thesis by (subst natDigits.simps) (simp add: decimalValue_def)
  qed
qed

lemma decimalString_value:
  "decimalString i = (if i < 0 then ''-'' else '''') @ natDigits (nat \<bar>i\<bar>)
   \<and> decimalValue (natDigits (nat \<bar>i\<bar>)) = nat \<bar>i\<bar>"
  by (simp add: decimalString_def natDigits_remainders [symmetric] natDigits_value)

text \<open>A key that comes last in the order of the keys is appended.\<close>

lemma keysOrdered_tail: "keysOrdered (k # ks) \<Longrightarrow> keysOrdered ks"
  by (cases ks) simp_all

lemma keysOrdered_prefix: "keysOrdered (xs @ ys) \<Longrightarrow> keysOrdered xs"
proof (induction xs rule: keysOrdered.induct)
  case (3 k k' ks)
  then show ?case by simp
qed simp_all

lemma keysOrdered_last:
  "keysOrdered (k' # ks @ [k]) \<Longrightarrow> isArrayIndex k \<Longrightarrow>
   isArrayIndex k' \<and> decimalValue k' < decimalValue k"
proof (induction ks arbitrary: k')
  case Nil
  then show ?case by simp
next
  case (Cons a ks)
  from Cons.prems have o: "keysOrdered (a # ks @ [k])" by simp
  from Cons.IH [OF o Cons.prems(2)] have a: "isArrayIndex a" "decimalValue a < decimalValue k"
    by simp_all
  from Cons.prems(1) a(1) have "isArrayIndex k' \<and> decimalValue k' < decimalValue a" by simp
  with a(2) show ?case by simp
qed

lemma insertProperty_last:
  "keysOrdered (map fst acc @ [k]) \<Longrightarrow> insertProperty k v acc = acc @ [(k, v)]"
proof (induction acc)
  case Nil
  then show ?case by simp
next
  case (Cons e acc)
  obtain k' v' where e: "e = (k', v')" by (cases e)
  from Cons.prems e have o: "keysOrdered (k' # map fst acc @ [k])" by simp
  then have t: "keysOrdered (map fst acc @ [k])" by (rule keysOrdered_tail)
  have "\<not> (isArrayIndex k \<and> (\<not> isArrayIndex k' \<or> decimalValue k < decimalValue k'))"
    using keysOrdered_last [OF o] by auto
  then have "insertProperty k v ((k', v') # acc) = (k', v') # insertProperty k v acc"
    by auto
  with Cons.IH [OF t] e show ?case by simp
qed

lemma assignProperty_last:
  assumes "k \<noteq> ''__proto__''" and "k \<notin> fst ` set acc" and "keysOrdered (map fst acc @ [k])"
  shows "assignProperty k v acc = acc @ [(k, v)]"
  using assms by (simp add: assignProperty_def defineProperty_def insertProperty_last)

lemma defineProperty_last:
  assumes "k \<notin> fst ` set acc" and "keysOrdered (map fst acc @ [k])"
  shows "defineProperty k v acc = acc @ [(k, v)]"
  using assms by (simp add: defineProperty_def insertProperty_last)

text \<open>\<^verbatim>\<open>Object.fromEntries\<close> of entries with distinct keys in the order of the keys is
  the object with these entries.\<close>

lemma foldl_defineProperty:
  "distinct (map fst acc @ map fst ws) \<Longrightarrow> keysOrdered (map fst acc @ map fst ws) \<Longrightarrow>
   foldl (\<lambda>acc e. defineProperty (fst e) (snd e) acc) acc ws = acc @ ws"
proof (induction ws arbitrary: acc)
  case Nil
  then show ?case by simp
next
  case (Cons e ws)
  from Cons.prems(1) have fresh: "fst e \<notin> fst ` set acc" by auto
  from Cons.prems(2) have "keysOrdered ((map fst acc @ [fst e]) @ map fst ws)" by simp
  then have o: "keysOrdered (map fst acc @ [fst e])" by (rule keysOrdered_prefix)
  have d: "defineProperty (fst e) (snd e) acc = acc @ [e]"
    using defineProperty_last [OF fresh o, of "snd e"] by simp
  from Cons.prems have "distinct (map fst (acc @ [e]) @ map fst ws)"
    "keysOrdered (map fst (acc @ [e]) @ map fst ws)" by simp_all
  from Cons.IH [OF this] d show ?case by simp
qed

lemma fromEntries_ordered:
  "distinct (map fst ws) \<Longrightarrow> keysOrdered (map fst ws) \<Longrightarrow> fromEntries ws = ws"
  using foldl_defineProperty [of "[]" ws] by (simp add: fromEntries_def)

text \<open>On the domain, the three functions of the source compute what the specification
  says: the traversal never throws, and the \<^verbatim>\<open>reduce\<close> appends one property for each
  entry.\<close>

lemma serialize_refines:
  "(inDomain v \<longrightarrow> serializeValue v = Inr (serialized v))"
  "((\<forall>x \<in> set xs. inDomain x) \<longrightarrow> serializeElements xs = Inr (map serialized xs))"
  "(distinct (map fst acc @ map fst es) \<and> keysOrdered (map fst acc @ map fst es)
      \<and> ''__proto__'' \<notin> fst ` set es \<and> (\<forall>e \<in> set es. inDomain (snd e)) \<longrightarrow>
      serializeEntries es acc = Inr (acc @ map (\<lambda>e. (fst e, serialized (snd e))) es))"
proof (induction v and xs and es acc rule: serializeValue_serializeElements_serializeEntries.induct)
  case (13 k v es acc)
  show ?case
  proof (intro impI, elim conjE)
    assume d: "distinct (map fst acc @ map fst ((k, v) # es))"
      and o: "keysOrdered (map fst acc @ map fst ((k, v) # es))"
      and p: "''__proto__'' \<notin> fst ` set ((k, v) # es)"
      and dom: "\<forall>e \<in> set ((k, v) # es). inDomain (snd e)"
    from dom have sv: "serializeValue v = Inr (serialized v)" using 13(1) by simp
    from d have fresh: "k \<notin> fst ` set acc" by auto
    from p have np: "k \<noteq> ''__proto__''" by auto
    from o have "keysOrdered ((map fst acc @ [k]) @ map fst es)" by simp
    then have ok: "keysOrdered (map fst acc @ [k])" by (rule keysOrdered_prefix)
    have sp: "assignProperty k (serialized v) acc = acc @ [(k, serialized v)]"
      using np fresh ok by (rule assignProperty_last)
    from d have d': "distinct (map fst (acc @ [(k, serialized v)]) @ map fst es)" by auto
    from o have o': "keysOrdered (map fst (acc @ [(k, serialized v)]) @ map fst es)" by simp
    from p have p': "''__proto__'' \<notin> fst ` set es" by auto
    from dom have dom': "\<forall>e \<in> set es. inDomain (snd e)" by simp
    have "serializeEntries es (assignProperty k (serialized v) acc)
            = Inr (assignProperty k (serialized v) acc @ map (\<lambda>e. (fst e, serialized (snd e))) es)"
      using 13(2) [OF sv] d' o' p' dom' sp by simp
    then show "serializeEntries ((k, v) # es) acc
            = Inr (acc @ map (\<lambda>e. (fst e, serialized (snd e))) ((k, v) # es))"
      using sv sp by simp
  qed
qed (simp_all add: toString_hex_lowercaseHex bigint_toString_decimalString)

lemma serialized_jsonSafe: "inDomain v \<Longrightarrow> jsonSafe (serialized v)"
  by (induction v rule: serialized.induct) auto

text \<open>The evaluation of the source on the concrete record.\<close>

lemmas property_defs =
  assignProperty_def defineProperty_def isArrayIndex_def isDigit_def decimalValue_def

lemma serializeValue_demoRecordValue:
  "serializeValue demoRecordValue =
     Inr (JObj [(''0'', JStr ''0fa0ff''),
                (''12'', JStr ''twelve''),
                (''amounts'', JArr [JStr ''-9007199254740993'', JNum 7, JStr ''x'']),
                (''signer'', JObj [(''active'', JBool True), (''weight'', JStr ''1'')])])"
  by (simp add: demoRecordValue_def toString_hex_def hexByte_def hexDigit_def
        bigint_toString_def natDigits.simps decimalDigit_def property_defs
        drop_bit_eq_div unat_div_distrib)

section \<open>The serializer: claims\<close>

text \<open>
  Claim C5, as stated: every record keeps its keys. A record with an own property named
  \<^verbatim>\<open>__proto__\<close> loses that key: the assignment of line 97 reaches the setter of
  \<^verbatim>\<open>Object.prototype\<close> and the accumulator gets no own property.
\<close>

theorem serializeValue_proto_key_counterexample:
  "serializeValue (JObj [(''__proto__'', JStr ''x''), (''owner'', JStr ''y'')])
     = Inr (JObj [(''owner'', JStr ''y'')])"
  by (simp add: property_defs)

text \<open>
  Claim C5, amended: for every value built from byte sequences, sequences, bigints,
  records that have no property named \<^verbatim>\<open>__proto__\<close>, and the scalars string, boolean and
  number, \<^verbatim>\<open>serializeValue\<close> returns, without throwing, the value of the same shape that
  the specification describes: byte sequences as lowercase hexadecimal strings, bigints
  as decimal strings, sequences element by element in order, records with the same
  keys in the same order and the values serialized, scalars unchanged. The result is
  JSON-safe.
\<close>

theorem serializeValue_serialized:
  "inDomain v \<Longrightarrow> serializeValue v = Inr (serialized v) \<and> jsonSafe (serialized v)"
  using serialize_refines(1) [of v] serialized_jsonSafe [of v] by simp

theorem serializeValue_serialized_witness:
  "inDomain demoRecordValue
   \<and> serializeValue demoRecordValue =
       Inr (JObj [(''0'', JStr ''0fa0ff''),
                  (''12'', JStr ''twelve''),
                  (''amounts'', JArr [JStr ''-9007199254740993'', JNum 7, JStr ''x'']),
                  (''signer'', JObj [(''active'', JBool True), (''weight'', JStr ''1'')])])
   \<and> serialized demoRecordValue =
       JObj [(''0'', JStr ''0fa0ff''),
             (''12'', JStr ''twelve''),
             (''amounts'', JArr [JStr ''-9007199254740993'', JNum 7, JStr ''x'']),
             (''signer'', JObj [(''active'', JBool True), (''weight'', JStr ''1'')])]
   \<and> jsonSafe (serialized demoRecordValue)"
proof -
  have h: "inDomain demoRecordValue"
    by (simp add: demoRecordValue_def isArrayIndex_def isDigit_def decimalValue_def)
  from serializeValue_serialized [OF h] h serializeValue_demoRecordValue show ?thesis
    by simp
qed

text \<open>
  Claim C9. \<^verbatim>\<open>serializeValue\<close> is not total on the JSON-safe values: on \<^verbatim>\<open>null\<close>, which
  is JSON-safe, it throws a TypeError instead of returning \<^verbatim>\<open>null\<close>; every other
  scalar (a string, a boolean, a number, \<^verbatim>\<open>undefined\<close>) is returned unchanged.
\<close>

theorem serializeValue_null_throws:
  "jsonSafe JNull
   \<and> serializeValue JNull = Inl TypeError
   \<and> serializeValue (JStr s) = Inr (JStr s)
   \<and> serializeValue (JBool b) = Inr (JBool b)
   \<and> serializeValue (JNum n) = Inr (JNum n)
   \<and> serializeValue JUndefined = Inr JUndefined"
  by simp

section \<open>The argument builder: lemmas\<close>

lemma getInitializeArgs_success_cases:
  assumes "fst (getInitializeArgs ext config chain name wallet options) = Inr initArgs"
  shows "name \<in> {''axelar_gateway'', ''axelar_auth_verifier'', ''axelar_operators''}"
  using assms
  by (auto simp: getInitializeArgs_def Let_def split: if_splits sum.splits)

text \<open>The builder succeeds only for a wallet whose public key is an address.\<close>

lemma getInitializeArgs_success_valid:
  assumes "fst (getInitializeArgs ext config chain name wallet options) = Inr initArgs"
  shows "isValidAddress ext (publicKey wallet)"
  using assms
  by (auto simp: getInitializeArgs_def nativeToScVal_address_def split: if_splits)

text \<open>The builder never writes the chain state.\<close>

lemma getInitializeArgs_chain:
  "snd (getInitializeArgs ext config chain name wallet options) = chain"
  by (simp add: getInitializeArgs_def Let_def split: option.splits sum.splits)

text \<open>The keys of the arguments are those of the three object literals.\<close>

lemma getInitializeArgs_keys:
  assumes "fst (getInitializeArgs ext config chain name wallet options) = Inr initArgs"
  shows "map fst initArgs \<in>
           {[''authAddress'', ''owner''],
            [''owner'', ''previousSignersRetention'', ''domainSeparator'',
             ''minimumRotationDelay'', ''initialSigners''],
            [''owner'']}"
  using assms
  by (auto simp: getInitializeArgs_def Let_def split: if_splits sum.splits option.splits)

text \<open>The optional chain of line 25 is \<^verbatim>\<open>undefined\<close> exactly when the registry, the
  record of the auth verifier or the address in it is missing.\<close>

lemma authVerifierAddress_None:
  "authVerifierAddress chain = None \<longleftrightarrow>
     (case contracts chain of
        None \<Rightarrow> True
      | Some reg \<Rightarrow> (case reg ''axelar_auth_verifier'' of None \<Rightarrow> True | Some r \<Rightarrow> address r = None))"
  by (simp add: authVerifierAddress_def split: option.splits)

lemma length_arrayify: "length (arrayify h) = 32"
  by (simp add: arrayify_def)

lemma arrayify_last: "arrayify h ! 31 = ucast h"
  by (simp add: arrayify_def)

lemma demo_hash_not_zero:
  "arrayify (keccak_id demoExternals s) \<noteq> replicate 32 0"
proof
  assume "arrayify (keccak_id demoExternals s) = replicate 32 0"
  then have "arrayify (keccak_id demoExternals s) ! 31 = replicate 32 (0 :: byte) ! 31" by simp
  then show False by (simp add: arrayify_last demoExternals_def)
qed

lemmas demo_address_defs =
  demoAccount_def demoVerifierId_def demoDeployedId_def demoExistingId_def

lemma demo_wallet_valid: "isValidAddress demoExternals (publicKey demoWallet)"
  by (simp add: demoExternals_def demoWallet_def)

lemma demo_gateway_args:
  "fst (getInitializeArgs demoExternals JNull (verifierChain (Some demoVerifierId))
          ''axelar_gateway'' demoWallet demoOptions)
     = Inr [(''authAddress'', ScvAddress demoVerifierId), (''owner'', ScvAddress demoAccount)]"
  by (simp add: getInitializeArgs_def authVerifierAddress_def nativeToScVal_address_def
        demoExternals_def demoChain_def demoWallet_def verifierChain_def demoVerifierId_def)

lemma demo_verifier_args:
  "fst (getInitializeArgs demoExternals JNull demoChain ''axelar_auth_verifier'' demoWallet
          (demoOptions\<lparr>nonceOption := Some ''salt''\<rparr>))
     = Inr [(''owner'', ScvAddress demoAccount),
            (''previousSignersRetention'', ScvU64 15),
            (''domainSeparator'', ScvBytes (arrayify 0x0102)),
            (''minimumRotationDelay'', ScvU64 0),
            (''initialSigners'',
             ScvVec [ScvMap [(''nonce'', ScvBytes (arrayify (keccak_id demoExternals ''salt''))),
                             (''signers'', ScvVec [ScvMap [(''signer'', ScvString demoAccount),
                                                           (''weight'', ScvU128 1)]]),
                             (''threshold'', ScvU128 1)]])]"
  by (simp add: getInitializeArgs_def initialSignerSet_def nativeToScVal_address_def
        demoExternals_def demoSignersToScVal_def demoWallet_def demoOptions_def)

section \<open>The argument builder: claims\<close>

text \<open>
  Claim C1, as stated: for all four supported contract identifiers the argument set
  has an \<open>owner\<close> entry with the wallet's address. The builder does not have four
  identifiers: no four distinct names can each make it succeed.
\<close>

theorem getInitializeArgs_not_four_identifiers:
  "\<not> (\<exists>a b c d. distinct [a, b, c, d] \<and>
        (\<forall>name \<in> set [a, b, c, d].
           \<exists>ext config chain wallet options initArgs.
             fst (getInitializeArgs ext config chain name wallet options) = Inr initArgs))"
proof
  assume "\<exists>a b c d. distinct [a, b, c, d] \<and>
        (\<forall>name \<in> set [a, b, c, d].
           \<exists>ext config chain wallet options initArgs.
             fst (getInitializeArgs ext config chain name wallet options) = Inr initArgs)"
  then obtain a b c d where d: "distinct [a, b, c, d]"
    and s: "\<forall>name \<in> set [a, b, c, d].
           \<exists>ext config chain wallet options initArgs.
             fst (getInitializeArgs ext config chain name wallet options) = Inr initArgs"
    by blast
  let ?S = "{''axelar_gateway'', ''axelar_auth_verifier'', ''axelar_operators''}"
  have sub: "set [a, b, c, d] \<subseteq> ?S"
    using s getInitializeArgs_success_cases by blast
  have "card (set [a, b, c, d]) = 4" using d distinct_card [of "[a, b, c, d]"] by simp
  moreover have "card ?S \<le> 3" by (simp add: card_insert_if)
  moreover have "card (set [a, b, c, d]) \<le> card ?S" using sub by (intro card_mono) auto
  ultimately show False by simp
qed

text \<open>
  Claim C1, amended: whenever the builder succeeds, the contract identifier is one of
  the three that it supports (\<open>axelar_gateway\<close>, \<open>axelar_auth_verifier\<close>,
  \<open>axelar_operators\<close>) and the argument set has an \<open>owner\<close> entry whose value is the
  address of the wallet, for every chain state, wallet, options and collaborators.
\<close>

theorem getInitializeArgs_owner:
  assumes "fst (getInitializeArgs ext config chain name wallet options) = Inr initArgs"
  shows "name \<in> {''axelar_gateway'', ''axelar_auth_verifier'', ''axelar_operators''} \<and>
         map_of initArgs ''owner'' = Some (ScvAddress (publicKey wallet))"
  using assms
  by (auto simp: getInitializeArgs_def Let_def nativeToScVal_address_def
           split: if_splits option.splits sum.splits)

theorem getInitializeArgs_owner_witness:
  "fst (getInitializeArgs demoExternals JNull (verifierChain (Some demoVerifierId))
          ''axelar_gateway'' demoWallet demoOptions)
     = Inr [(''authAddress'', ScvAddress demoVerifierId), (''owner'', ScvAddress demoAccount)]
   \<and> ''axelar_gateway'' \<in> {''axelar_gateway'', ''axelar_auth_verifier'', ''axelar_operators''}
   \<and> map_of [(''authAddress'', ScvAddress demoVerifierId), (''owner'', ScvAddress demoAccount)]
        ''owner''
       = Some (ScvAddress (publicKey demoWallet))"
  using getInitializeArgs_owner [OF demo_gateway_args] demo_gateway_args by simp

text \<open>
  Claim C2. For a wallet whose public key is an account address, as the public key of
  every key pair of the SDK is: when the registry has no record of the auth verifier
  with an address (no registry, no record, or a record without address), building the
  arguments of \<open>axelar_gateway\<close> fails with MissingDependency and the chain state, with
  its registry, is as it was.
\<close>

theorem getInitializeArgs_gateway_missing_dependency:
  assumes "isValidAddress ext (publicKey wallet)"
      and "case contracts chain of
             None \<Rightarrow> True
           | Some reg \<Rightarrow> (case reg ''axelar_auth_verifier'' of None \<Rightarrow> True | Some r \<Rightarrow> address r = None)"
  shows "getInitializeArgs ext config chain ''axelar_gateway'' wallet options
           = (Inl MissingDependency, chain)"
proof -
  from assms(2) have "authVerifierAddress chain = None"
    by (simp add: authVerifierAddress_None)
  with assms(1) show ?thesis by (simp add: getInitializeArgs_def nativeToScVal_address_def)
qed

theorem getInitializeArgs_gateway_missing_dependency_witness:
  "isValidAddress demoExternals (publicKey demoWallet)
   \<and> (case contracts (verifierChain None) of
      None \<Rightarrow> True
    | Some reg \<Rightarrow> (case reg ''axelar_auth_verifier'' of None \<Rightarrow> True | Some r \<Rightarrow> address r = None))
   \<and> getInitializeArgs demoExternals JNull (verifierChain None) ''axelar_gateway'' demoWallet demoOptions
       = (Inl MissingDependency, verifierChain None)
   \<and> contracts (verifierChain None) =
       Some [''axelar_auth_verifier'' \<mapsto>
         \<lparr>address = None, deployer = Some demoAccount, initializeArgs = None\<rparr>]"
proof -
  have h: "case contracts (verifierChain None) of
      None \<Rightarrow> True
    | Some reg \<Rightarrow> (case reg ''axelar_auth_verifier'' of None \<Rightarrow> True | Some r \<Rightarrow> address r = None)"
    by (simp add: verifierChain_def)
  have c: "contracts (verifierChain None) =
       Some [''axelar_auth_verifier'' \<mapsto>
         \<lparr>address = None, deployer = Some demoAccount, initializeArgs = None\<rparr>]"
    by (simp add: verifierChain_def)
  from getInitializeArgs_gateway_missing_dependency [OF demo_wallet_valid h] demo_wallet_valid h c
  show ?thesis by simp
qed

text \<open>
  Claim C3. For a wallet whose public key is an account address, as the public key of
  every key pair of the SDK is: for every contract identifier other than
  \<open>axelar_gateway\<close>, \<open>axelar_auth_verifier\<close> and \<open>axelar_operators\<close> the builder fails
  with UnknownContract, for every chain state, options and collaborators.
\<close>

theorem getInitializeArgs_unknown_contract:
  "isValidAddress ext (publicKey wallet) \<Longrightarrow>
   name \<notin> {''axelar_gateway'', ''axelar_auth_verifier'', ''axelar_operators''} \<Longrightarrow>
   getInitializeArgs ext config chain name wallet options = (Inl (UnknownContract name), chain)"
  by (simp add: getInitializeArgs_def nativeToScVal_address_def)

theorem getInitializeArgs_unknown_contract_witness:
  "isValidAddress demoExternals (publicKey demoWallet)
   \<and> ''axelar_its'' \<notin> {''axelar_gateway'', ''axelar_auth_verifier'', ''axelar_operators''}
   \<and> getInitializeArgs demoExternals JNull demoChain ''axelar_its'' demoWallet demoOptions
       = (Inl (UnknownContract ''axelar_its''), demoChain)"
proof -
  have h: "''axelar_its'' \<notin> {''axelar_gateway'', ''axelar_auth_verifier'', ''axelar_operators''}"
    by simp
  from getInitializeArgs_unknown_contract [OF demo_wallet_valid h] demo_wallet_valid h
  show ?thesis by simp
qed

text \<open>
  Claim C4, as stated: when \<^verbatim>\<open>options.nonce\<close> is supplied, the nonce of the Signer Set
  is the hash of that string. With the empty string supplied as nonce, the Signer Set
  that is encoded into the arguments has the nonce of 32 zero bytes, which is not the
  hash of the empty string.
\<close>

theorem getInitializeArgs_empty_nonce_counterexample:
  "fst (getInitializeArgs demoExternals JNull demoChain ''axelar_auth_verifier'' demoWallet
          (demoOptions\<lparr>nonceOption := Some ''''\<rparr>))
     = Inr [(''owner'', ScvAddress demoAccount),
            (''previousSignersRetention'', ScvU64 15),
            (''domainSeparator'', ScvBytes (arrayify 0x0102)),
            (''minimumRotationDelay'', ScvU64 0),
            (''initialSigners'',
             ScvVec [ScvMap [(''nonce'', ScvBytes (replicate 32 0)),
                             (''signers'', ScvVec [ScvMap [(''signer'', ScvString demoAccount),
                                                           (''weight'', ScvU128 1)]]),
                             (''threshold'', ScvU128 1)]])]
   \<and> nonceOption (demoOptions\<lparr>nonceOption := Some ''''\<rparr>) = Some ''''
   \<and> arrayify (keccak_id demoExternals '''') \<noteq> replicate 32 0"
proof (intro conjI)
  show "arrayify (keccak_id demoExternals '''') \<noteq> replicate 32 0"
    by (rule demo_hash_not_zero)
qed (simp_all add: getInitializeArgs_def initialSignerSet_def nativeToScVal_address_def
        demoExternals_def demoSignersToScVal_def demoWallet_def demoOptions_def)

text \<open>
  Claim C4, amended: whenever the builder succeeds for \<open>axelar_auth_verifier\<close>, its
  \<open>initialSigners\<close> argument is the one-element vector of the encoding of a Signer Set
  that has exactly one signer, the wallet's public key with weight 1, threshold 1 and
  a nonce of 32 bytes; the nonce is 32 zero bytes when \<^verbatim>\<open>options.nonce\<close> is absent or the
  empty string, and the hash of \<^verbatim>\<open>options.nonce\<close> when that is a non-empty string.
\<close>

theorem getInitializeArgs_signer_set:
  assumes "fst (getInitializeArgs ext config chain ''axelar_auth_verifier'' wallet options) = Inr initArgs"
  shows "(\<exists>encoded. weightedSignersToScVal ext (initialSignerSet ext wallet options) = Inr encoded
            \<and> map_of initArgs ''initialSigners'' = Some (ScvVec [encoded]))
         \<and> signers (initialSignerSet ext wallet options) = [\<lparr>signer = publicKey wallet, weight = 1\<rparr>]
         \<and> threshold (initialSignerSet ext wallet options) = 1
         \<and> length (nonce (initialSignerSet ext wallet options)) = 32
         \<and> nonce (initialSignerSet ext wallet options) =
             (case nonceOption options of
                None \<Rightarrow> replicate 32 0
              | Some s \<Rightarrow> if s = [] then replicate 32 0 else arrayify (keccak_id ext s))"
proof -
  have "\<exists>encoded. weightedSignersToScVal ext (initialSignerSet ext wallet options) = Inr encoded
            \<and> map_of initArgs ''initialSigners'' = Some (ScvVec [encoded])"
    using assms
    by (auto simp: getInitializeArgs_def Let_def split: sum.splits)
  moreover have "length (nonce (initialSignerSet ext wallet options)) = 32"
    by (simp add: initialSignerSet_def length_arrayify split: option.splits)
  ultimately show ?thesis by (simp add: initialSignerSet_def)
qed

theorem getInitializeArgs_signer_set_witness:
  "fst (getInitializeArgs demoExternals JNull demoChain ''axelar_auth_verifier'' demoWallet
          (demoOptions\<lparr>nonceOption := Some ''salt''\<rparr>))
     = Inr [(''owner'', ScvAddress demoAccount),
            (''previousSignersRetention'', ScvU64 15),
            (''domainSeparator'', ScvBytes (arrayify 0x0102)),
            (''minimumRotationDelay'', ScvU64 0),
            (''initialSigners'',
             ScvVec [ScvMap [(''nonce'', ScvBytes (arrayify (keccak_id demoExternals ''salt''))),
                             (''signers'', ScvVec [ScvMap [(''signer'', ScvString demoAccount),
                                                           (''weight'', ScvU128 1)]]),
                             (''threshold'', ScvU128 1)]])]
   \<and> signers (initialSignerSet demoExternals demoWallet (demoOptions\<lparr>nonceOption := Some ''salt''\<rparr>))
       = [\<lparr>signer = demoAccount, weight = 1\<rparr>]
   \<and> threshold (initialSignerSet demoExternals demoWallet (demoOptions\<lparr>nonceOption := Some ''salt''\<rparr>)) = 1
   \<and> length (nonce (initialSignerSet demoExternals demoWallet (demoOptions\<lparr>nonceOption := Some ''salt''\<rparr>))) = 32
   \<and> nonce (initialSignerSet demoExternals demoWallet (demoOptions\<lparr>nonceOption := Some ''salt''\<rparr>))
       = arrayify (keccak_id demoExternals ''salt'')"
  using getInitializeArgs_signer_set [OF demo_verifier_args] demo_verifier_args
  by (simp add: demoWallet_def demoOptions_def length_arrayify)

section \<open>The orchestrator: lemmas\<close>

text \<open>The serializer throws nothing but a TypeError, and the builder never reports a
  failed remote call.\<close>

lemma serialize_errors:
  "serializeValue v = Inl e \<longrightarrow> e = TypeError"
  "serializeElements xs = Inl e \<longrightarrow> e = TypeError"
  "serializeEntries es acc = Inl e \<longrightarrow> e = TypeError"
  by (induction v and xs and es acc rule: serializeValue_serializeElements_serializeEntries.induct)
     (auto split: sum.splits)

lemma serializeArgEntries_error: "serializeArgEntries es = Inl e \<Longrightarrow> e = TypeError"
  by (induction es rule: serializeArgEntries.induct)
     (auto split: sum.splits dest: serialize_errors(1) [rule_format])

lemma serializeArgs_error: "serializeArgs es = Inl e \<Longrightarrow> e = TypeError"
  by (auto simp: serializeArgs_def split: sum.splits dest: serializeArgEntries_error)

lemma getInitializeArgs_error:
  "fst (getInitializeArgs ext config chain name wallet options) = Inl e \<Longrightarrow>
   e \<noteq> RemoteCallFailed f m"
  by (auto simp: getInitializeArgs_def Let_def nativeToScVal_address_def
        split: if_splits option.splits sum.splits)

text \<open>The serialized arguments have one entry for each argument, in order.\<close>

lemma serializeArgEntries_entries:
  "serializeArgEntries es = Inr ws \<Longrightarrow> serializedEntries es ws \<and> map fst ws = map fst es"
proof (induction es arbitrary: ws rule: serializeArgEntries.induct)
  case 1
  then show ?case by (simp add: serializedEntries_def)
next
  case (2 key v es)
  from "2.prems" obtain w ws' where w: "serializeValue (scValToNative v) = Inr w"
    and ws': "serializeArgEntries es = Inr ws'" and ws: "ws = (key, w) # ws'"
    by (auto split: sum.splits)
  from "2.IH" [OF w ws'] w ws show ?case by (simp add: serializedEntries_def)
qed

lemma argument_keys_ordered:
  assumes "ks \<in> {[''authAddress'', ''owner''],
            [''owner'', ''previousSignersRetention'', ''domainSeparator'',
             ''minimumRotationDelay'', ''initialSigners''],
            [''owner'']}"
  shows "distinct ks \<and> keysOrdered ks"
  using assms by (auto simp: isArrayIndex_def isDigit_def)

lemma serializeArgs_entries:
  assumes g: "fst (getInitializeArgs ext config chain name wallet options) = Inr initArgs"
      and s: "serializeArgs initArgs = Inr sargs"
  shows "serializedEntries initArgs sargs"
proof -
  from s obtain ws where ws: "serializeArgEntries initArgs = Inr ws" and f: "sargs = fromEntries ws"
    by (auto simp: serializeArgs_def split: sum.splits)
  from serializeArgEntries_entries [OF ws]
  have e: "serializedEntries initArgs ws" and k: "map fst ws = map fst initArgs" by simp_all
  from argument_keys_ordered [OF getInitializeArgs_keys [OF g]] k
  have "distinct (map fst ws)" "keysOrdered (map fst ws)" by simp_all
  then have "fromEntries ws = ws" by (rule fromEntries_ordered)
  with e f show ?thesis by simp
qed

text \<open>A hook adds only its own events and never reports a failed \<open>initialize\<close>.\<close>

lemma postDeployGateway_events:
  "postDeployGateway ext chain wallet options = (outcome, t) \<Longrightarrow>
   (\<forall>ev \<in> set t. hookEvent chain wallet ev) \<and> (\<forall>m. outcome \<noteq> Inl (RemoteCallFailed ''initialize'' m))"
  by (auto simp: postDeployGateway_def Let_def hookEvent_def nativeToScVal_address_def
        split: option.splits sum.splits if_splits)

lemma postDeployFunctions_events:
  assumes "postDeployFunctions name = Some hook" and "hook ext chain wallet options = (outcome, t)"
  shows "(\<forall>ev \<in> set t. hookEvent chain wallet ev)
       \<and> (\<forall>m. outcome \<noteq> Inl (RemoteCallFailed ''initialize'' m))"
proof (cases "name = ''axelar_gateway''")
  case True
  with assms show ?thesis
    using postDeployGateway_events [of ext chain wallet options outcome t]
    by (simp add: postDeployFunctions_def)
next
  case False
  with assms have "hook = inheritedMember name"
    by (auto simp: postDeployFunctions_def split: if_splits)
  with assms(2) show ?thesis
    by (auto simp: inheritedMember_def split: sum.splits)
qed


lemma hookEvent_broadcast:
  "hookEvent c w (Broadcast operation w' c' d) \<Longrightarrow> fnName operation = ''transfer_ownership''"
  by (simp add: hookEvent_def)

text \<open>
  What lines 137 to 153 do to a chain state with a registry: either they fail before
  the assignment of line 141 and leave the state and the events as they were, or the
  serialized arguments are in the record, and then either \<^verbatim>\<open>new Contract\<close> throws or the
  initialize call is broadcast on that state, followed by the events of the hook; when
  the broadcast fails, the run fails with it and nothing follows.
\<close>

lemma initializeContract_run:
  assumes reg: "contracts chain = Some reg"
      and run: "initializeContract ext options config chain wallet addr record trace
                  = (outcome, chain', trace')"
  shows "(chain' = chain \<and> trace' = trace \<and> (\<forall>m. outcome \<noteq> Inl (RemoteCallFailed ''initialize'' m))
          \<and> (\<forall>initArgs. fst (getInitializeArgs ext config chain (contractName options) wallet options)
                 = Inr initArgs \<longrightarrow> (\<exists>e. serializeArgs initArgs = Inl e)))
       \<or> (\<exists>initArgs sargs.
            fst (getInitializeArgs ext config chain (contractName options) wallet options) = Inr initArgs
            \<and> serializeArgs initArgs = Inr sargs
            \<and> chain' = chain\<lparr>contracts :=
                 Some (reg(contractName options \<mapsto> record\<lparr>initializeArgs := Some sargs\<rparr>))\<rparr>
            \<and> ((\<not> isValidContractId ext addr \<and> trace' = trace
                   \<and> outcome = Inl (InvalidContractId addr))
               \<or> (isValidContractId ext addr \<and>
                   (\<exists>rest. trace' = trace @
                       [PrintInfo ''Initializing contract with args'' (JsonText (JObj sargs)),
                        Broadcast \<lparr>contractId = addr, fnName = ''initialize'', args = map snd initArgs\<rparr>
                          wallet chain' ''Initialized contract''] @ rest
                    \<and> (\<forall>ev \<in> set rest. hookEvent chain' wallet ev)
                    \<and> (\<forall>m. outcome = Inl (RemoteCallFailed ''initialize'' m) \<longrightarrow> rest = [])
                    \<and> (\<forall>m. broadcast ext
                              \<lparr>contractId = addr, fnName = ''initialize'', args = map snd initArgs\<rparr>
                              wallet chain' ''Initialized contract'' options = Inl m \<longrightarrow>
                            outcome = Inl (RemoteCallFailed ''initialize'' m) \<and> rest = [])))))"
proof -
  let ?name = "contractName options"
  obtain res where g: "getInitializeArgs ext config chain ?name wallet options = (res, chain)"
    using getInitializeArgs_chain [of ext config chain ?name wallet options]
    by (cases "getInitializeArgs ext config chain ?name wallet options") auto
  show ?thesis
  proof (cases res)
    case (Inl e)
    with g have "fst (getInitializeArgs ext config chain ?name wallet options) = Inl e"
      by simp
    then have "\<forall>m. e \<noteq> RemoteCallFailed ''initialize'' m"
      using getInitializeArgs_error by blast
    with run g Inl show ?thesis by (auto simp: initializeContract_def)
  next
    case (Inr initArgs)
    note ia = this
    have fstg: "fst (getInitializeArgs ext config chain ?name wallet options) = Inr initArgs"
      using g ia by simp
    from getInitializeArgs_success_cases [OF fstg] have np: "?name \<noteq> ''__proto__''" by auto
    show ?thesis
    proof (cases "serializeArgs initArgs")
      case (Inl e)
      then have "e = TypeError" by (rule serializeArgs_error)
      with run g ia Inl show ?thesis by (auto simp: initializeContract_def)
    next
      case (Inr sargs)
      note sa = this
      let ?c2 = "chain\<lparr>contracts := Some (reg(?name \<mapsto> record\<lparr>initializeArgs := Some sargs\<rparr>))\<rparr>"
      let ?op = "\<lparr>contractId = addr, fnName = ''initialize'', args = map snd initArgs\<rparr>"
      have ac: "assignContract chain ?name (record\<lparr>initializeArgs := Some sargs\<rparr>) = Inr ?c2"
        using reg np by (simp add: assignContract_def)
      show ?thesis
      proof (cases "isValidContractId ext addr")
        case False
        with run g ia sa ac fstg show ?thesis by (simp add: initializeContract_def)
      next
        case True
        note valid = this
        show ?thesis
        proof (cases "broadcast ext ?op wallet ?c2 ''Initialized contract'' options")
          case (Inl m)
          with run g ia sa ac fstg valid show ?thesis
            by (auto simp: initializeContract_def Let_def)
        next
          case (Inr u)
          note bc = this
          show ?thesis
          proof (cases "postDeployFunctions ?name")
            case None
            with run g ia sa ac fstg valid bc show ?thesis
              by (auto simp: initializeContract_def Let_def)
          next
            case (Some hook)
            obtain ho ht where h: "hook ext ?c2 wallet options = (ho, ht)"
              by (cases "hook ext ?c2 wallet options") auto
            from postDeployFunctions_events [OF Some h]
            have hev: "\<forall>ev \<in> set ht. hookEvent ?c2 wallet ev"
              and hout: "\<forall>m. ho \<noteq> Inl (RemoteCallFailed ''initialize'' m)" by auto
            have pi: "hookEvent ?c2 wallet (PrintInfo ''Post deployment setup executed'' NoInfo)"
              by (simp add: hookEvent_def)
            from run g ia sa ac fstg valid bc Some h hev hout pi
            show ?thesis
              by (cases ho) (auto simp: initializeContract_def Let_def)
          qed
        qed
      qed
    qed
  qed
qed

text \<open>Lines 119 to 126: adoption of a non-empty address, deployment otherwise.\<close>

lemma deployOrAdopt_adopt:
  "addressOption options = Some a \<Longrightarrow> a \<noteq> [] \<Longrightarrow>
   deployOrAdopt ext options cmd = (Inr a, [PrintInfo ''Using existing contract'' (Info a)])"
  by (simp add: deployOrAdopt_def)

lemma deployOrAdopt_deploy:
  "addressOption options = None \<or> addressOption options = Some [] \<Longrightarrow>
   deployOrAdopt ext options cmd =
     (case execSync ext cmd of
        Inl m \<Rightarrow> (Inl (DeploymentFailed m), [ExecSync cmd])
      | Inr out \<Rightarrow>
          (Inr (trimEnd out),
           [ExecSync cmd, PrintInfo ''Deployed contract successfully!'' (Info (trimEnd out))]))"
  by (auto simp: deployOrAdopt_def)

lemma deployOrAdopt_events:
  "deployOrAdopt ext options cmd = (res, t) \<Longrightarrow>
   (\<forall>operation w c d. Broadcast operation w c d \<notin> set t) \<and>
   (\<forall>n. res \<noteq> Inl (UnknownContract n)) \<and>
   (\<forall>m. res \<noteq> Inl (RemoteCallFailed ''initialize'' m))"
  by (auto simp: deployOrAdopt_def Let_def split: option.splits sum.splits if_splits)

text \<open>The end of the output is trimmed: a line without white space at its end, followed
  by a line feed, gives the line.\<close>

lemma trimEnd_line:
  "line = [] \<or> \<not> isWhiteSpace (last line) \<Longrightarrow> trimEnd (line @ [CHR 0x0A]) = line"
  by (cases line rule: rev_cases) (auto simp: trimEnd_def isWhiteSpace_def)

text \<open>Line 128 always finds a registry; for a name other than \<^verbatim>\<open>__proto__\<close> it writes an
  own property.\<close>

lemma assignContract_ensured:
  "\<exists>chain2 reg. assignContract (ensureRegistry chain) name r = Inr chain2
      \<and> contracts chain2 = Some reg"
  by (auto simp: assignContract_def ensureRegistry_def split: option.splits)

lemma assignContract_recorded:
  "name \<noteq> ''__proto__'' \<Longrightarrow>
   assignContract (ensureRegistry chain) name
     \<lparr>address = Some addr, deployer = Some (publicKey w), initializeArgs = ia\<rparr>
   = Inr (recordedChain chain name addr w ia)"
  by (auto simp: assignContract_def ensureRegistry_def recordedChain_def split: option.splits)

lemma recordedChain_contracts:
  "contracts (recordedChain chain name addr w ia) =
     Some ((case contracts chain of None \<Rightarrow> Map.empty | Some r \<Rightarrow> r)
        (name \<mapsto> \<lparr>address = Some addr, deployer = Some (publicKey w), initializeArgs = ia\<rparr>))"
  by (simp add: recordedChain_def)

text \<open>A run that resolves the passphrase and the wallet and obtains an address stores
  the record and, when asked to, goes on to initialize; any other run stops before
  line 128 without a broadcast.\<close>

lemma processCommand_stored:
  assumes "getNetworkPassphrase ext (networkType chain) = Inr np"
      and "getWallet ext chain options = Inr w"
      and "deployOrAdopt ext options (deployCommand options chain np) = (Inr addr, t)"
  shows "\<exists>chain2 reg.
           assignContract (ensureRegistry chain) (contractName options)
             \<lparr>address = Some addr, deployer = Some (publicKey w), initializeArgs = None\<rparr>
             = Inr chain2
         \<and> contracts chain2 = Some reg
         \<and> processCommand ext options config chain =
           (if \<not> initialize options
            then (Inr (), chain2,
                  PrintInfo ''Deploying contract'' (Info (contractName options)) # t)
            else initializeContract ext options config chain2 w addr
                   \<lparr>address = Some addr, deployer = Some (publicKey w), initializeArgs = None\<rparr>
                   (PrintInfo ''Deploying contract'' (Info (contractName options)) # t))"
proof -
  from assignContract_ensured [of chain "contractName options"
      "\<lparr>address = Some addr, deployer = Some (publicKey w), initializeArgs = None\<rparr>"]
  obtain chain2 reg where a: "assignContract (ensureRegistry chain) (contractName options)
             \<lparr>address = Some addr, deployer = Some (publicKey w), initializeArgs = None\<rparr>
             = Inr chain2" and r: "contracts chain2 = Some reg"
    by blast
  with assms show ?thesis by (simp add: processCommand_def Let_def)
qed

lemma processCommand_not_recorded:
  assumes "processCommand ext options config chain = (outcome, chain', trace)"
  shows "(\<exists>np w addr t. getNetworkPassphrase ext (networkType chain) = Inr np
            \<and> getWallet ext chain options = Inr w
            \<and> deployOrAdopt ext options (deployCommand options chain np) = (Inr addr, t))
       \<or> ((\<forall>operation w c d. Broadcast operation w c d \<notin> set trace)
            \<and> (\<forall>n. outcome \<noteq> Inl (UnknownContract n))
            \<and> (\<forall>m. outcome \<noteq> Inl (RemoteCallFailed ''initialize'' m))
            \<and> (\<forall>a. addressOption options = Some a \<and> a \<noteq> [] \<longrightarrow> (\<forall>cmd. ExecSync cmd \<notin> set trace)))"
proof (cases "getNetworkPassphrase ext (networkType chain)")
  case (Inl m)
  with assms show ?thesis by (auto simp: processCommand_def)
next
  case (Inr np)
  note np = this
  show ?thesis
  proof (cases "getWallet ext chain options")
    case (Inl m)
    with assms np show ?thesis by (auto simp: processCommand_def)
  next
    case (Inr w)
    obtain res t where d: "deployOrAdopt ext options (deployCommand options chain np) = (res, t)"
      by (cases "deployOrAdopt ext options (deployCommand options chain np)") auto
    show ?thesis
    proof (cases res)
      case (Inl e)
      have ev: "(\<forall>operation w c d. Broadcast operation w c d \<notin> set t) \<and>
                (\<forall>n. res \<noteq> Inl (UnknownContract n)) \<and>
                (\<forall>m. res \<noteq> Inl (RemoteCallFailed ''initialize'' m))"
        using deployOrAdopt_events [OF d] .
      have ad: "addressOption options = Some a \<Longrightarrow> a \<noteq> [] \<Longrightarrow> False" for a
        using deployOrAdopt_adopt [of options a ext "deployCommand options chain np"] d Inl by simp
      from assms np Inr d Inl ev ad show ?thesis
        by (auto simp: processCommand_def Let_def)
    next
      case (Inr addr)
      with np \<open>getWallet ext chain options = Inr w\<close> d show ?thesis by blast
    qed
  qed
qed

text \<open>A run for a name that the builder does not support never broadcasts.\<close>

lemma processCommand_unsupported:
  assumes name: "contractName options \<notin> {''axelar_gateway'', ''axelar_auth_verifier'', ''axelar_operators''}"
      and run: "processCommand ext options config chain = (outcome, chain', trace)"
  shows "(\<forall>operation w c d. Broadcast operation w c d \<notin> set trace)
       \<and> (\<forall>n. \<not> initialize options \<longrightarrow> outcome \<noteq> Inl (UnknownContract n))
       \<and> (\<forall>m. outcome \<noteq> Inl (RemoteCallFailed ''initialize'' m))"
proof -
  from processCommand_not_recorded [OF run] show ?thesis
  proof (elim disjE exE conjE)
    fix np w addr t
    assume np: "getNetworkPassphrase ext (networkType chain) = Inr np"
      and w: "getWallet ext chain options = Inr w"
      and d: "deployOrAdopt ext options (deployCommand options chain np) = (Inr addr, t)"
    let ?pre = "PrintInfo ''Deploying contract'' (Info (contractName options)) # t"
    let ?rec = "\<lparr>address = Some addr, deployer = Some (publicKey w), initializeArgs = None\<rparr>"
    have nb: "\<forall>operation w c d. Broadcast operation w c d \<notin> set ?pre"
      using deployOrAdopt_events [OF d] by simp
    from processCommand_stored [OF np w d, of config] obtain chain2 reg where
      reg: "contracts chain2 = Some reg"
      and p: "processCommand ext options config chain =
           (if \<not> initialize options then (Inr (), chain2, ?pre)
            else initializeContract ext options config chain2 w addr ?rec ?pre)"
      by blast
    show ?thesis
    proof (cases "initialize options")
      case False
      with p run nb show ?thesis by auto
    next
      case True
      with p run have i: "initializeContract ext options config chain2 w addr ?rec ?pre
          = (outcome, chain', trace)" by simp
      from initializeContract_run [OF reg i] show ?thesis
      proof (elim disjE conjE exE)
        assume "trace = ?pre" "\<forall>m. outcome \<noteq> Inl (RemoteCallFailed ''initialize'' m)"
        with nb True show ?thesis by simp
      next
        fix initArgs
        assume "fst (getInitializeArgs ext config chain2 (contractName options) w options)
                  = Inr initArgs"
        from getInitializeArgs_success_cases [OF this] name show ?thesis by simp
      next
        fix initArgs
        assume "fst (getInitializeArgs ext config chain2 (contractName options) w options)
                  = Inr initArgs"
        from getInitializeArgs_success_cases [OF this] name show ?thesis by simp
      qed
    qed
  next
    assume "\<forall>operation w c d. Broadcast operation w c d \<notin> set trace"
      "\<forall>n. outcome \<noteq> Inl (UnknownContract n)"
      "\<forall>m. outcome \<noteq> Inl (RemoteCallFailed ''initialize'' m)"
    then show ?thesis by blast
  qed
qed

text \<open>A run that stores the record under a name other than \<^verbatim>\<open>__proto__\<close>: the final chain
  state, the events and the outcome.\<close>

lemma processCommand_recorded_run:
  assumes np: "getNetworkPassphrase ext (networkType chain) = Inr np"
      and w: "getWallet ext chain options = Inr w"
      and d: "deployOrAdopt ext options (deployCommand options chain np) = (Inr addr, t)"
      and nproto: "contractName options \<noteq> ''__proto__''"
      and run: "processCommand ext options config chain = (outcome, chain', trace)"
  shows "\<exists>iargs rest.
           chain' = recordedChain chain (contractName options) addr w iargs
         \<and> trace = PrintInfo ''Deploying contract'' (Info (contractName options)) # t @ rest
         \<and> (\<not> initialize options \<longrightarrow> outcome = Inr () \<and> rest = [] \<and> iargs = None)
         \<and> (\<forall>initArgs sargs.
               initialize options
             \<and> fst (getInitializeArgs ext config
                      (recordedChain chain (contractName options) addr w None)
                      (contractName options) w options) = Inr initArgs
             \<and> serializeArgs initArgs = Inr sargs \<longrightarrow>
               iargs = Some sargs
             \<and> (isValidContractId ext addr \<longrightarrow>
                 (\<exists>hook. rest =
                     [PrintInfo ''Initializing contract with args'' (JsonText (JObj sargs)),
                      Broadcast \<lparr>contractId = addr, fnName = ''initialize'', args = map snd initArgs\<rparr>
                        w chain' ''Initialized contract''] @ hook
                   \<and> (\<forall>m. broadcast ext
                              \<lparr>contractId = addr, fnName = ''initialize'', args = map snd initArgs\<rparr>
                              w chain' ''Initialized contract'' options = Inl m \<longrightarrow>
                          outcome = Inl (RemoteCallFailed ''initialize'' m) \<and> hook = []))))
         \<and> ((rest = [] \<and> (\<forall>m. outcome \<noteq> Inl (RemoteCallFailed ''initialize'' m)))
            \<or> (\<exists>initArgs sargs hook.
                  fst (getInitializeArgs ext config
                      (recordedChain chain (contractName options) addr w None)
                      (contractName options) w options) = Inr initArgs
                \<and> serializeArgs initArgs = Inr sargs \<and> iargs = Some sargs
                \<and> rest = [PrintInfo ''Initializing contract with args'' (JsonText (JObj sargs)),
                           Broadcast \<lparr>contractId = addr, fnName = ''initialize'', args = map snd initArgs\<rparr>
                             w chain' ''Initialized contract''] @ hook
                \<and> (\<forall>ev \<in> set hook. hookEvent chain' w ev)
                \<and> (\<forall>m. outcome = Inl (RemoteCallFailed ''initialize'' m) \<longrightarrow> hook = [])))"
proof -
  let ?name = "contractName options"
  let ?rec = "\<lparr>address = Some addr, deployer = Some (publicKey w), initializeArgs = None\<rparr>"
  let ?c = "recordedChain chain ?name addr w None"
  let ?reg = "(case contracts chain of None \<Rightarrow> Map.empty | Some r \<Rightarrow> r)(?name \<mapsto> ?rec)"
  let ?pre = "PrintInfo ''Deploying contract'' (Info ?name) # t"
  have reg: "contracts ?c = Some ?reg" by (rule recordedChain_contracts)
  from processCommand_stored [OF np w d, of config] assignContract_recorded [OF nproto, of chain addr w None]
  have p: "processCommand ext options config chain =
           (if \<not> initialize options then (Inr (), ?c, ?pre)
            else initializeContract ext options config ?c w addr ?rec ?pre)"
    by auto
  show ?thesis
  proof (cases "initialize options")
    case False
    with p run show ?thesis by auto
  next
    case True
    with p run have i: "initializeContract ext options config ?c w addr ?rec ?pre
        = (outcome, chain', trace)" by simp
    from initializeContract_run [OF reg i] show ?thesis
    proof (elim disjE conjE exE)
      assume "chain' = ?c" "trace = ?pre"
        "\<forall>m. outcome \<noteq> Inl (RemoteCallFailed ''initialize'' m)"
        "\<forall>initArgs. fst (getInitializeArgs ext config ?c ?name w options) = Inr initArgs
            \<longrightarrow> (\<exists>e. serializeArgs initArgs = Inl e)"
      then show ?thesis using True
        by (intro exI [of _ None] exI [of _ "[]"]) auto
    next
      fix initArgs sargs
      assume g: "fst (getInitializeArgs ext config ?c ?name w options) = Inr initArgs"
        and sa: "serializeArgs initArgs = Inr sargs"
        and c': "chain' = ?c\<lparr>contracts := Some (?reg(?name \<mapsto> ?rec\<lparr>initializeArgs := Some sargs\<rparr>))\<rparr>"
        and nv: "\<not> isValidContractId ext addr"
        and "trace = ?pre" "outcome = Inl (InvalidContractId addr)"
      from c' have "chain' = recordedChain chain ?name addr w (Some sargs)"
        by (simp add: recordedChain_def)
      with g sa nv \<open>trace = ?pre\<close> \<open>outcome = Inl (InvalidContractId addr)\<close> True show ?thesis
        by (intro exI [of _ "Some sargs"] exI [of _ "[]"]) auto
    next
      fix initArgs :: "(string \<times> scval) list" and sargs rest
      let ?op = "\<lparr>contractId = addr, fnName = ''initialize'', args = map snd initArgs\<rparr>"
      let ?rest = "[PrintInfo ''Initializing contract with args'' (JsonText (JObj sargs)),
                    Broadcast ?op w chain' ''Initialized contract''] @ rest"
      assume g: "fst (getInitializeArgs ext config ?c ?name w options) = Inr initArgs"
        and sa: "serializeArgs initArgs = Inr sargs"
        and c': "chain' = ?c\<lparr>contracts := Some (?reg(?name \<mapsto> ?rec\<lparr>initializeArgs := Some sargs\<rparr>))\<rparr>"
        and v: "isValidContractId ext addr"
        and tr: "trace = ?pre @ ?rest"
        and hk: "\<forall>ev \<in> set rest. hookEvent chain' w ev"
        and fl: "\<forall>m. outcome = Inl (RemoteCallFailed ''initialize'' m) \<longrightarrow> rest = []"
        and bf: "\<forall>m. broadcast ext ?op w chain' ''Initialized contract'' options = Inl m \<longrightarrow>
                    outcome = Inl (RemoteCallFailed ''initialize'' m) \<and> rest = []"
      from c' have c'': "chain' = recordedChain chain ?name addr w (Some sargs)"
        by (simp add: recordedChain_def)
      have a4: "\<forall>initArgs' sargs'.
               initialize options
             \<and> fst (getInitializeArgs ext config ?c ?name w options) = Inr initArgs'
             \<and> serializeArgs initArgs' = Inr sargs' \<longrightarrow>
               Some sargs = Some sargs'
             \<and> (isValidContractId ext addr \<longrightarrow>
                 (\<exists>hook. ?rest =
                     [PrintInfo ''Initializing contract with args'' (JsonText (JObj sargs')),
                      Broadcast \<lparr>contractId = addr, fnName = ''initialize'', args = map snd initArgs'\<rparr>
                        w chain' ''Initialized contract''] @ hook
                   \<and> (\<forall>m. broadcast ext
                              \<lparr>contractId = addr, fnName = ''initialize'', args = map snd initArgs'\<rparr>
                              w chain' ''Initialized contract'' options = Inl m \<longrightarrow>
                          outcome = Inl (RemoteCallFailed ''initialize'' m) \<and> hook = [])))"
        using g sa bf by auto
      have a5: "\<exists>initArgs' sargs' hook.
                  fst (getInitializeArgs ext config ?c ?name w options) = Inr initArgs'
                \<and> serializeArgs initArgs' = Inr sargs' \<and> Some sargs = Some sargs'
                \<and> ?rest = [PrintInfo ''Initializing contract with args'' (JsonText (JObj sargs')),
                           Broadcast \<lparr>contractId = addr, fnName = ''initialize'', args = map snd initArgs'\<rparr>
                             w chain' ''Initialized contract''] @ hook
                \<and> (\<forall>ev \<in> set hook. hookEvent chain' w ev)
                \<and> (\<forall>m. outcome = Inl (RemoteCallFailed ''initialize'' m) \<longrightarrow> hook = [])"
        using g sa hk fl by (intro exI [of _ initArgs] exI [of _ sargs] exI [of _ rest]) simp
      show ?thesis
      proof (intro exI [of _ "Some sargs"] exI [of _ ?rest] conjI)
        show "chain' = recordedChain chain ?name addr w (Some sargs)" by (rule c'')
        show "trace = PrintInfo ''Deploying contract'' (Info ?name) # t @ ?rest"
          using tr by simp
        show "\<not> initialize options \<longrightarrow> outcome = Inr () \<and> ?rest = [] \<and> Some sargs = None"
          using True by simp
      qed (rule a4, rule disjI2, rule a5)
    qed
  qed
qed

text \<open>The parts of the previous lemma, one at a time.\<close>

lemma processCommand_recorded_cases:
  assumes np: "getNetworkPassphrase ext (networkType chain) = Inr np"
      and w: "getWallet ext chain options = Inr w"
      and d: "deployOrAdopt ext options (deployCommand options chain np) = (Inr addr, t)"
      and nproto: "contractName options \<noteq> ''__proto__''"
      and run: "processCommand ext options config chain = (outcome, chain', trace)"
  obtains iargs rest where
        "chain' = recordedChain chain (contractName options) addr w iargs"
    and "trace = PrintInfo ''Deploying contract'' (Info (contractName options)) # t @ rest"
    and "(rest = [] \<and> (\<forall>m. outcome \<noteq> Inl (RemoteCallFailed ''initialize'' m)))
            \<or> (\<exists>initArgs sargs hook.
                  fst (getInitializeArgs ext config
                      (recordedChain chain (contractName options) addr w None)
                      (contractName options) w options) = Inr initArgs
                \<and> serializeArgs initArgs = Inr sargs \<and> iargs = Some sargs
                \<and> rest = [PrintInfo ''Initializing contract with args'' (JsonText (JObj sargs)),
                           Broadcast \<lparr>contractId = addr, fnName = ''initialize'', args = map snd initArgs\<rparr>
                             w chain' ''Initialized contract''] @ hook
                \<and> (\<forall>ev \<in> set hook. hookEvent chain' w ev)
                \<and> (\<forall>m. outcome = Inl (RemoteCallFailed ''initialize'' m) \<longrightarrow> hook = []))"
  using processCommand_recorded_run [OF np w d nproto run]
  by (elim exE conjE) (rule that)


lemma processCommand_recorded_init:
  assumes np: "getNetworkPassphrase ext (networkType chain) = Inr np"
      and w: "getWallet ext chain options = Inr w"
      and d: "deployOrAdopt ext options (deployCommand options chain np) = (Inr addr, t)"
      and run: "processCommand ext options config chain = (outcome, chain', trace)"
      and init: "initialize options"
      and g: "fst (getInitializeArgs ext config
                    (recordedChain chain (contractName options) addr w None)
                    (contractName options) w options) = Inr initArgs"
      and s: "serializeArgs initArgs = Inr sargs"
  shows "chain' = recordedChain chain (contractName options) addr w (Some sargs)"
    and "isValidContractId ext addr \<Longrightarrow>
         \<exists>hook. trace =
             PrintInfo ''Deploying contract'' (Info (contractName options)) # t @
             [PrintInfo ''Initializing contract with args'' (JsonText (JObj sargs)),
              Broadcast \<lparr>contractId = addr, fnName = ''initialize'', args = map snd initArgs\<rparr>
                w chain' ''Initialized contract''] @ hook
           \<and> (\<forall>m. broadcast ext
                     \<lparr>contractId = addr, fnName = ''initialize'', args = map snd initArgs\<rparr>
                     w chain' ''Initialized contract'' options = Inl m \<longrightarrow>
                   outcome = Inl (RemoteCallFailed ''initialize'' m) \<and> hook = [])"
proof -
  from getInitializeArgs_success_cases [OF g] have nproto: "contractName options \<noteq> ''__proto__''"
    by auto
  from processCommand_recorded_run [OF np w d nproto run]
  obtain iargs rest where
        c: "chain' = recordedChain chain (contractName options) addr w iargs"
    and tr: "trace = PrintInfo ''Deploying contract'' (Info (contractName options)) # t @ rest"
    and a: "\<forall>initArgs sargs.
               initialize options
             \<and> fst (getInitializeArgs ext config
                      (recordedChain chain (contractName options) addr w None)
                      (contractName options) w options) = Inr initArgs
             \<and> serializeArgs initArgs = Inr sargs \<longrightarrow>
               iargs = Some sargs
             \<and> (isValidContractId ext addr \<longrightarrow>
                 (\<exists>hook. rest =
                     [PrintInfo ''Initializing contract with args'' (JsonText (JObj sargs)),
                      Broadcast \<lparr>contractId = addr, fnName = ''initialize'', args = map snd initArgs\<rparr>
                        w chain' ''Initialized contract''] @ hook
                   \<and> (\<forall>m. broadcast ext
                              \<lparr>contractId = addr, fnName = ''initialize'', args = map snd initArgs\<rparr>
                              w chain' ''Initialized contract'' options = Inl m \<longrightarrow>
                          outcome = Inl (RemoteCallFailed ''initialize'' m) \<and> hook = [])))"
    by (elim exE conjE) (rule that)
  from a [rule_format, of initArgs sargs] init g s
  have i: "iargs = Some sargs"
    and r: "isValidContractId ext addr \<longrightarrow>
                 (\<exists>hook. rest =
                     [PrintInfo ''Initializing contract with args'' (JsonText (JObj sargs)),
                      Broadcast \<lparr>contractId = addr, fnName = ''initialize'', args = map snd initArgs\<rparr>
                        w chain' ''Initialized contract''] @ hook
                   \<and> (\<forall>m. broadcast ext
                              \<lparr>contractId = addr, fnName = ''initialize'', args = map snd initArgs\<rparr>
                              w chain' ''Initialized contract'' options = Inl m \<longrightarrow>
                          outcome = Inl (RemoteCallFailed ''initialize'' m) \<and> hook = []))"
    by simp_all
  show "chain' = recordedChain chain (contractName options) addr w (Some sargs)"
    using c i by simp
  assume "isValidContractId ext addr"
  with r obtain hook where
       h: "rest = [PrintInfo ''Initializing contract with args'' (JsonText (JObj sargs)),
                   Broadcast \<lparr>contractId = addr, fnName = ''initialize'', args = map snd initArgs\<rparr>
                     w chain' ''Initialized contract''] @ hook"
   and f: "\<forall>m. broadcast ext
                  \<lparr>contractId = addr, fnName = ''initialize'', args = map snd initArgs\<rparr>
                  w chain' ''Initialized contract'' options = Inl m \<longrightarrow>
                outcome = Inl (RemoteCallFailed ''initialize'' m) \<and> hook = []"
    by (elim impE exE conjE) (assumption, rule that)
  show "\<exists>hook. trace =
             PrintInfo ''Deploying contract'' (Info (contractName options)) # t @
             [PrintInfo ''Initializing contract with args'' (JsonText (JObj sargs)),
              Broadcast \<lparr>contractId = addr, fnName = ''initialize'', args = map snd initArgs\<rparr>
                w chain' ''Initialized contract''] @ hook
           \<and> (\<forall>m. broadcast ext
                     \<lparr>contractId = addr, fnName = ''initialize'', args = map snd initArgs\<rparr>
                     w chain' ''Initialized contract'' options = Inl m \<longrightarrow>
                   outcome = Inl (RemoteCallFailed ''initialize'' m) \<and> hook = [])"
  proof (intro exI [of _ hook] conjI)
    show "trace =
             PrintInfo ''Deploying contract'' (Info (contractName options)) # t @
             [PrintInfo ''Initializing contract with args'' (JsonText (JObj sargs)),
              Broadcast \<lparr>contractId = addr, fnName = ''initialize'', args = map snd initArgs\<rparr>
                w chain' ''Initialized contract''] @ hook"
      using tr h by simp
    show "\<forall>m. broadcast ext
                     \<lparr>contractId = addr, fnName = ''initialize'', args = map snd initArgs\<rparr>
                     w chain' ''Initialized contract'' options = Inl m \<longrightarrow>
                   outcome = Inl (RemoteCallFailed ''initialize'' m) \<and> hook = []"
      by (rule f)
  qed
qed

text \<open>The concrete runs, evaluated.\<close>

lemmas demo_run_defs =
  processCommand_def deployOrAdopt_def initializeContract_def getInitializeArgs_def
  nativeToScVal_address_def serializeArgs_def fromEntries_def postDeployFunctions_def
  objectPrototypeMembers_def trimEnd_def isWhiteSpace_def assignContract_def
  ensureRegistry_def property_defs
  demoExternals_def demoOptions_def demoChain_def demoWallet_def demoRecorded_def
  demo_address_defs Let_def

lemma demo_passphrase:
  "getNetworkPassphrase demoExternals (networkType demoChain) = Inr demoPassphrase"
  by (simp add: demoExternals_def demoChain_def)

lemma demo_wallet: "getWallet demoExternals demoChain opts = Inr demoWallet"
  by (simp add: demoExternals_def)

lemma demo_deployed_valid: "isValidContractId demoExternals demoDeployedId"
  by (simp add: demoExternals_def)


lemma demo_deploy_run:
  "processCommand demoExternals demoOptions JNull demoChain
     = (Inr (),
        demoRecorded ''axelar_operators'' demoDeployedId (Some [(''owner'', JStr demoAccount)]),
        [PrintInfo ''Deploying contract'' (Info ''axelar_operators''),
         ExecSync (deployCommand demoOptions demoChain demoPassphrase),
         PrintInfo ''Deployed contract successfully!'' (Info demoDeployedId),
         PrintInfo ''Initializing contract with args''
           (JsonText (JObj [(''owner'', JStr demoAccount)])),
         Broadcast \<lparr>contractId = demoDeployedId, fnName = ''initialize'',
                    args = [ScvAddress demoAccount]\<rparr>
           demoWallet
           (demoRecorded ''axelar_operators'' demoDeployedId (Some [(''owner'', JStr demoAccount)]))
           ''Initialized contract''])"
  by (simp add: demo_run_defs)


lemma demo_failed_initialize_run:
  "processCommand
     (demoExternals\<lparr>broadcast := \<lambda>operation w c description opts. Inl ''tx failed''\<rparr>)
     demoOptions JNull demoChain
     = (Inl (RemoteCallFailed ''initialize'' ''tx failed''),
        demoRecorded ''axelar_operators'' demoDeployedId (Some [(''owner'', JStr demoAccount)]),
        [PrintInfo ''Deploying contract'' (Info ''axelar_operators''),
         ExecSync (deployCommand demoOptions demoChain demoPassphrase),
         PrintInfo ''Deployed contract successfully!'' (Info demoDeployedId),
         PrintInfo ''Initializing contract with args''
           (JsonText (JObj [(''owner'', JStr demoAccount)])),
         Broadcast \<lparr>contractId = demoDeployedId, fnName = ''initialize'',
                    args = [ScvAddress demoAccount]\<rparr>
           demoWallet
           (demoRecorded ''axelar_operators'' demoDeployedId (Some [(''owner'', JStr demoAccount)]))
           ''Initialized contract''])"
  by (simp add: demo_run_defs)






section \<open>The orchestrator: claims\<close>




text \<open>
  Claim C7. In every run with initialization requested: first, every broadcast of the
  \<open>initialize\<close> call in the run is made on the chain state that the run leaves behind,
  and in that state the record of the contract holds the address, the deployer and the
  serialized form of the arguments that the builder has returned and that the call
  carries; second, whenever the run reaches the call (the passphrase and the wallet are
  resolved, an address is obtained, the builder and the serializer succeed, the address
  is a contract identifier), the serialized arguments are in the record of the final
  state, entry by entry the serialization of the arguments, the call is broadcast on
  that state, and if this broadcast fails the run fails with RemoteCallFailed and
  nothing follows the broadcast: the state is not rolled back.
\<close>

theorem processCommand_args_recorded_before_initialize:
  assumes init: "initialize options"
      and run: "processCommand ext options config chain = (outcome, chain', trace)"
  shows "(\<forall>operation w c d.
            Broadcast operation w c d \<in> set trace \<and> fnName operation = ''initialize'' \<longrightarrow>
              c = chain' \<and>
              (\<exists>reg sargs initArgs.
                  fst (getInitializeArgs ext config
                        (recordedChain chain (contractName options) (contractId operation) w None)
                        (contractName options) w options) = Inr initArgs
                \<and> serializeArgs initArgs = Inr sargs
                \<and> args operation = map snd initArgs
                \<and> contracts c = Some reg
                \<and> reg (contractName options) =
                    Some \<lparr>address = Some (contractId operation), deployer = Some (publicKey w),
                          initializeArgs = Some sargs\<rparr>))
       \<and> (\<forall>np w addr t initArgs sargs.
              getNetworkPassphrase ext (networkType chain) = Inr np
            \<and> getWallet ext chain options = Inr w
            \<and> deployOrAdopt ext options (deployCommand options chain np) = (Inr addr, t)
            \<and> fst (getInitializeArgs ext config
                     (recordedChain chain (contractName options) addr w None)
                     (contractName options) w options) = Inr initArgs
            \<and> serializeArgs initArgs = Inr sargs
            \<and> isValidContractId ext addr \<longrightarrow>
              serializedEntries initArgs sargs
            \<and> (\<exists>reg. contracts chain' = Some reg
                  \<and> reg (contractName options) =
                      Some \<lparr>address = Some addr, deployer = Some (publicKey w),
                            initializeArgs = Some sargs\<rparr>)
            \<and> (\<exists>rest. trace =
                    PrintInfo ''Deploying contract'' (Info (contractName options)) # t @
                    [PrintInfo ''Initializing contract with args'' (JsonText (JObj sargs)),
                     Broadcast \<lparr>contractId = addr, fnName = ''initialize'', args = map snd initArgs\<rparr>
                       w chain' ''Initialized contract''] @ rest
                  \<and> (\<forall>m. broadcast ext
                            \<lparr>contractId = addr, fnName = ''initialize'', args = map snd initArgs\<rparr>
                            w chain' ''Initialized contract'' options = Inl m \<longrightarrow>
                          outcome = Inl (RemoteCallFailed ''initialize'' m) \<and> rest = [])))"
proof (intro conjI allI impI; (elim conjE)?)
  fix np w addr t and initArgs :: "(string \<times> scval) list" and sargs
  assume np: "getNetworkPassphrase ext (networkType chain) = Inr np"
    and w: "getWallet ext chain options = Inr w"
    and d: "deployOrAdopt ext options (deployCommand options chain np) = (Inr addr, t)"
    and g: "fst (getInitializeArgs ext config
                 (recordedChain chain (contractName options) addr w None)
                 (contractName options) w options) = Inr initArgs"
    and s: "serializeArgs initArgs = Inr sargs"
    and v: "isValidContractId ext addr"
  note r = processCommand_recorded_init [OF np w d run init g s]
  show "serializedEntries initArgs sargs" using g s by (rule serializeArgs_entries)
  show "\<exists>reg. contracts chain' = Some reg
          \<and> reg (contractName options) =
              Some \<lparr>address = Some addr, deployer = Some (publicKey w),
                    initializeArgs = Some sargs\<rparr>"
    using r(1) by (simp add: recordedChain_contracts)
  show "\<exists>rest. trace =
          PrintInfo ''Deploying contract'' (Info (contractName options)) # t @
          [PrintInfo ''Initializing contract with args'' (JsonText (JObj sargs)),
           Broadcast \<lparr>contractId = addr, fnName = ''initialize'', args = map snd initArgs\<rparr>
             w chain' ''Initialized contract''] @ rest
        \<and> (\<forall>m. broadcast ext
                  \<lparr>contractId = addr, fnName = ''initialize'', args = map snd initArgs\<rparr>
                  w chain' ''Initialized contract'' options = Inl m \<longrightarrow>
                outcome = Inl (RemoteCallFailed ''initialize'' m) \<and> rest = [])"
    using v by (rule r(2))
next
  fix operation w c d
  assume m: "Broadcast operation w c d \<in> set trace" and fn: "fnName operation = ''initialize''"
  have both: "c = chain' \<and>
              (\<exists>reg sargs initArgs.
                  fst (getInitializeArgs ext config
                        (recordedChain chain (contractName options) (contractId operation) w None)
                        (contractName options) w options) = Inr initArgs
                \<and> serializeArgs initArgs = Inr sargs
                \<and> args operation = map snd initArgs
                \<and> contracts c = Some reg
                \<and> reg (contractName options) =
                    Some \<lparr>address = Some (contractId operation), deployer = Some (publicKey w),
                          initializeArgs = Some sargs\<rparr>)"
  proof -
    have "\<exists>np w0 addr t. getNetworkPassphrase ext (networkType chain) = Inr np
            \<and> getWallet ext chain options = Inr w0
            \<and> deployOrAdopt ext options (deployCommand options chain np) = (Inr addr, t)"
      using processCommand_not_recorded [OF run] m by blast
    then obtain np w0 addr t where np: "getNetworkPassphrase ext (networkType chain) = Inr np"
      and w0: "getWallet ext chain options = Inr w0"
      and d: "deployOrAdopt ext options (deployCommand options chain np) = (Inr addr, t)"
      by (elim exE conjE) (rule that)
    have nproto: "contractName options \<noteq> ''__proto__''"
    proof
      assume "contractName options = ''__proto__''"
      then have "contractName options \<notin> {''axelar_gateway'', ''axelar_auth_verifier'', ''axelar_operators''}"
        by simp
      from processCommand_unsupported [OF this run] m show False by blast
    qed
    have nb: "Broadcast operation w c d \<notin> set t"
      using deployOrAdopt_events [OF d] by blast
    obtain iargs rest where
          c': "chain' = recordedChain chain (contractName options) addr w0 iargs"
      and tr: "trace = PrintInfo ''Deploying contract'' (Info (contractName options)) # t @ rest"
      and cs: "(rest = [] \<and> (\<forall>m. outcome \<noteq> Inl (RemoteCallFailed ''initialize'' m)))
            \<or> (\<exists>initArgs sargs hook.
                  fst (getInitializeArgs ext config
                      (recordedChain chain (contractName options) addr w0 None)
                      (contractName options) w0 options) = Inr initArgs
                \<and> serializeArgs initArgs = Inr sargs \<and> iargs = Some sargs
                \<and> rest = [PrintInfo ''Initializing contract with args'' (JsonText (JObj sargs)),
                           Broadcast \<lparr>contractId = addr, fnName = ''initialize'', args = map snd initArgs\<rparr>
                             w0 chain' ''Initialized contract''] @ hook
                \<and> (\<forall>ev \<in> set hook. hookEvent chain' w0 ev)
                \<and> (\<forall>m. outcome = Inl (RemoteCallFailed ''initialize'' m) \<longrightarrow> hook = []))"
      by (rule processCommand_recorded_cases [OF np w0 d nproto run]) (rule that)
    from cs show ?thesis
    proof (elim disjE exE conjE)
      assume "rest = []"
      with tr nb m show ?thesis by simp
    next
      fix initArgs :: "(string \<times> scval) list" and sargs hook
      assume g: "fst (getInitializeArgs ext config
                      (recordedChain chain (contractName options) addr w0 None)
                      (contractName options) w0 options) = Inr initArgs"
        and sa: "serializeArgs initArgs = Inr sargs" and ia: "iargs = Some sargs"
        and rest: "rest = [PrintInfo ''Initializing contract with args'' (JsonText (JObj sargs)),
                           Broadcast \<lparr>contractId = addr, fnName = ''initialize'', args = map snd initArgs\<rparr>
                             w0 chain' ''Initialized contract''] @ hook"
        and hk: "\<forall>ev \<in> set hook. hookEvent chain' w0 ev"
      have hb: "Broadcast operation w c d \<notin> set hook"
      proof
        assume "Broadcast operation w c d \<in> set hook"
        with hk have "hookEvent chain' w0 (Broadcast operation w c d)" by blast
        from hookEvent_broadcast [OF this] fn show False by simp
      qed
      from m tr rest nb hb
      have e: "Broadcast operation w c d =
               Broadcast \<lparr>contractId = addr, fnName = ''initialize'', args = map snd initArgs\<rparr>
                 w0 chain' ''Initialized contract''"
        by simp
      then have op: "contractId operation = addr" "args operation = map snd initArgs"
          "w = w0" "c = chain'"
        by auto
      have "\<exists>reg. contracts chain' = Some reg
              \<and> reg (contractName options) =
                  Some \<lparr>address = Some addr, deployer = Some (publicKey w0),
                        initializeArgs = Some sargs\<rparr>"
        using c' ia by (simp add: recordedChain_contracts)
      then obtain reg where r1: "contracts chain' = Some reg"
        and r2: "reg (contractName options) =
                  Some \<lparr>address = Some addr, deployer = Some (publicKey w0),
                        initializeArgs = Some sargs\<rparr>"
        by (elim exE conjE) (rule that)
      show ?thesis
        using op g sa r1 r2
        by (intro conjI exI [of _ reg] exI [of _ sargs] exI [of _ initArgs]) simp_all
    qed
  qed
  from both show "c = chain'" by (rule conjunct1)
  from both show "\<exists>reg sargs initArgs.
                  fst (getInitializeArgs ext config
                        (recordedChain chain (contractName options) (contractId operation) w None)
                        (contractName options) w options) = Inr initArgs
                \<and> serializeArgs initArgs = Inr sargs
                \<and> args operation = map snd initArgs
                \<and> contracts c = Some reg
                \<and> reg (contractName options) =
                    Some \<lparr>address = Some (contractId operation), deployer = Some (publicKey w),
                          initializeArgs = Some sargs\<rparr>"
    by (rule conjunct2)
qed

theorem processCommand_args_recorded_before_initialize_witness:
  "initialize demoOptions
   \<and> processCommand
       (demoExternals\<lparr>broadcast := \<lambda>operation w c description opts. Inl ''tx failed''\<rparr>)
       demoOptions JNull demoChain
     = (Inl (RemoteCallFailed ''initialize'' ''tx failed''),
        demoRecorded ''axelar_operators'' demoDeployedId (Some [(''owner'', JStr demoAccount)]),
        [PrintInfo ''Deploying contract'' (Info ''axelar_operators''),
         ExecSync (deployCommand demoOptions demoChain demoPassphrase),
         PrintInfo ''Deployed contract successfully!'' (Info demoDeployedId),
         PrintInfo ''Initializing contract with args''
           (JsonText (JObj [(''owner'', JStr demoAccount)])),
         Broadcast \<lparr>contractId = demoDeployedId, fnName = ''initialize'',
                    args = [ScvAddress demoAccount]\<rparr>
           demoWallet
           (demoRecorded ''axelar_operators'' demoDeployedId (Some [(''owner'', JStr demoAccount)]))
           ''Initialized contract''])
   \<and> serializedEntries [(''owner'', ScvAddress demoAccount)] [(''owner'', JStr demoAccount)]
   \<and> (\<exists>reg. contracts (demoRecorded ''axelar_operators'' demoDeployedId
                          (Some [(''owner'', JStr demoAccount)])) = Some reg
        \<and> reg ''axelar_operators'' =
            Some \<lparr>address = Some demoDeployedId, deployer = Some demoAccount,
                  initializeArgs = Some [(''owner'', JStr demoAccount)]\<rparr>)"
proof -
  let ?ext = "demoExternals\<lparr>broadcast := \<lambda>operation w c description opts. Inl ''tx failed''\<rparr>"
  let ?t = "[ExecSync (deployCommand demoOptions demoChain demoPassphrase),
             PrintInfo ''Deployed contract successfully!'' (Info demoDeployedId)]"
  let ?initArgs = "[(''owner'', ScvAddress demoAccount)]"
  let ?sargs = "[(''owner'', JStr demoAccount)]"
  have i: "initialize demoOptions" by (simp add: demoOptions_def)
  have np: "getNetworkPassphrase ?ext (networkType demoChain) = Inr demoPassphrase"
    by (simp add: demoExternals_def demoChain_def)
  have w: "getWallet ?ext demoChain demoOptions = Inr demoWallet"
    by (simp add: demoExternals_def)
  have tr: "trimEnd (demoDeployedId @ [CHR 0x0A]) = demoDeployedId"
    by (rule trimEnd_line) (simp add: demoDeployedId_def isWhiteSpace_def)
  have d: "deployOrAdopt ?ext demoOptions (deployCommand demoOptions demoChain demoPassphrase)
             = (Inr demoDeployedId, ?t)"
    by (simp add: deployOrAdopt_def demoExternals_def demoOptions_def tr)
  have g: "fst (getInitializeArgs ?ext JNull
                  (recordedChain demoChain (contractName demoOptions) demoDeployedId demoWallet None)
                  (contractName demoOptions) demoWallet demoOptions) = Inr ?initArgs"
    by (simp add: getInitializeArgs_def nativeToScVal_address_def demoExternals_def
        demoOptions_def demoWallet_def)
  have s: "serializeArgs ?initArgs = Inr ?sargs"
    by (simp add: serializeArgs_def fromEntries_def property_defs)
  have v: "isValidContractId ?ext demoDeployedId" by (simp add: demoExternals_def)
  note t = processCommand_args_recorded_before_initialize [OF i demo_failed_initialize_run]
  have pre: "getNetworkPassphrase ?ext (networkType demoChain) = Inr demoPassphrase
      \<and> getWallet ?ext demoChain demoOptions = Inr demoWallet
      \<and> deployOrAdopt ?ext demoOptions (deployCommand demoOptions demoChain demoPassphrase)
          = (Inr demoDeployedId, ?t)
      \<and> fst (getInitializeArgs ?ext JNull
                 (recordedChain demoChain (contractName demoOptions) demoDeployedId demoWallet None)
                 (contractName demoOptions) demoWallet demoOptions) = Inr ?initArgs
      \<and> serializeArgs ?initArgs = Inr ?sargs
      \<and> isValidContractId ?ext demoDeployedId"
    by (intro conjI) (rule np, rule w, rule d, rule g, rule s, rule v)
  note r = t [THEN conjunct2, rule_format, OF pre]
  note e1 = r [THEN conjunct1]
  from r [THEN conjunct2, THEN conjunct1]
  have e2: "\<exists>reg. contracts (demoRecorded ''axelar_operators'' demoDeployedId (Some ?sargs)) = Some reg
            \<and> reg ''axelar_operators'' =
                Some \<lparr>address = Some demoDeployedId, deployer = Some demoAccount,
                      initializeArgs = Some ?sargs\<rparr>"
    by (simp add: demoOptions_def demoWallet_def)
  show ?thesis
    by (intro conjI) (rule i, rule demo_failed_initialize_run, rule e1, rule e2)
qed

text \<open>
  Claim C8. In every run for \<open>axelar_operators\<close> with initialization requested and no
  \<^verbatim>\<open>--address\<close> option, in which the passphrase and the wallet are resolved, the
  wallet's public key is an address (line 21 accepts it) and the deploy binary
  succeeds, the Contract Record of \<open>axelar_operators\<close> has the trimmed output of the
  deploy binary as address, the wallet's public key as deployer and the one-entry
  mapping from \<open>owner\<close> to the wallet's address as \<open>initializeArgs\<close>, whatever the later
  steps of the run do.
\<close>

theorem processCommand_operators_record:
  assumes name: "contractName options = ''axelar_operators''"
      and init: "initialize options"
      and noaddr: "addressOption options = None"
      and np: "getNetworkPassphrase ext (networkType chain) = Inr np"
      and w: "getWallet ext chain options = Inr w"
      and valid: "isValidAddress ext (publicKey w)"
      and ex: "execSync ext (deployCommand options chain np) = Inr out"
      and run: "processCommand ext options config chain = (outcome, chain', trace)"
  shows "\<exists>reg. contracts chain' = Some reg
           \<and> reg ''axelar_operators'' =
               Some \<lparr>address = Some (trimEnd out), deployer = Some (publicKey w),
                     initializeArgs = Some [(''owner'', JStr (publicKey w))]\<rparr>"
proof -
  have d: "deployOrAdopt ext options (deployCommand options chain np) =
             (Inr (trimEnd out),
              [ExecSync (deployCommand options chain np),
               PrintInfo ''Deployed contract successfully!'' (Info (trimEnd out))])"
    using noaddr ex by (simp add: deployOrAdopt_deploy)
  have g: "fst (getInitializeArgs ext config
                  (recordedChain chain (contractName options) (trimEnd out) w None)
                  (contractName options) w options) = Inr [(''owner'', ScvAddress (publicKey w))]"
    using name valid by (simp add: getInitializeArgs_def nativeToScVal_address_def)
  have s: "serializeArgs [(''owner'', ScvAddress (publicKey w))] = Inr [(''owner'', JStr (publicKey w))]"
    by (simp add: serializeArgs_def fromEntries_def property_defs)
  have "chain' = recordedChain chain (contractName options) (trimEnd out) w
                   (Some [(''owner'', JStr (publicKey w))])"
    by (rule processCommand_recorded_init(1) [OF np w d run init g s])
  then show ?thesis using name by (simp add: recordedChain_contracts)
qed

theorem processCommand_operators_record_witness:
  "contractName demoOptions = ''axelar_operators''
   \<and> initialize demoOptions
   \<and> addressOption demoOptions = None
   \<and> getNetworkPassphrase demoExternals (networkType demoChain) = Inr demoPassphrase
   \<and> getWallet demoExternals demoChain demoOptions = Inr demoWallet
   \<and> isValidAddress demoExternals (publicKey demoWallet)
   \<and> execSync demoExternals (deployCommand demoOptions demoChain demoPassphrase)
       = Inr (demoDeployedId @ [CHR 0x0A])
   \<and> processCommand demoExternals demoOptions JNull demoChain
       = (Inr (),
          demoRecorded ''axelar_operators'' demoDeployedId (Some [(''owner'', JStr demoAccount)]),
          [PrintInfo ''Deploying contract'' (Info ''axelar_operators''),
           ExecSync (deployCommand demoOptions demoChain demoPassphrase),
           PrintInfo ''Deployed contract successfully!'' (Info demoDeployedId),
           PrintInfo ''Initializing contract with args''
             (JsonText (JObj [(''owner'', JStr demoAccount)])),
           Broadcast \<lparr>contractId = demoDeployedId, fnName = ''initialize'',
                      args = [ScvAddress demoAccount]\<rparr>
             demoWallet
             (demoRecorded ''axelar_operators'' demoDeployedId (Some [(''owner'', JStr demoAccount)]))
             ''Initialized contract''])
   \<and> (\<exists>reg. contracts (demoRecorded ''axelar_operators'' demoDeployedId
                          (Some [(''owner'', JStr demoAccount)])) = Some reg
         \<and> reg ''axelar_operators'' =
             Some \<lparr>address = Some demoDeployedId, deployer = Some demoAccount,
                   initializeArgs = Some [(''owner'', JStr demoAccount)]\<rparr>)"
proof -
  have name: "contractName demoOptions = ''axelar_operators''" by (simp add: demoOptions_def)
  have init: "initialize demoOptions" by (simp add: demoOptions_def)
  have noaddr: "addressOption demoOptions = None" by (simp add: demoOptions_def)
  have valid: "isValidAddress demoExternals (publicKey demoWallet)"
    by (simp add: demoExternals_def demoWallet_def)
  have ex: "execSync demoExternals (deployCommand demoOptions demoChain demoPassphrase)
              = Inr (demoDeployedId @ [CHR 0x0A])"
    by (simp add: demoExternals_def)
  have tr: "trimEnd (demoDeployedId @ [CHR 0x0A]) = demoDeployedId"
    by (rule trimEnd_line) (simp add: demoDeployedId_def isWhiteSpace_def)
  from processCommand_operators_record
         [OF name init noaddr demo_passphrase demo_wallet valid ex demo_deploy_run]
  have e: "\<exists>reg. contracts (demoRecorded ''axelar_operators'' demoDeployedId
                          (Some [(''owner'', JStr demoAccount)])) = Some reg
         \<and> reg ''axelar_operators'' =
             Some \<lparr>address = Some demoDeployedId, deployer = Some demoAccount,
                   initializeArgs = Some [(''owner'', JStr demoAccount)]\<rparr>"
    by (simp add: tr demoWallet_def)
  show ?thesis
    by (intro conjI)
       (rule name, rule init, rule noaddr, rule demo_passphrase, rule demo_wallet, rule valid,
        rule ex, rule demo_deploy_run, rule e)
qed




end
